theory Spec2Isabelle
  imports Complex_Main "HOL-Library.Sublist"
begin

section \<open>Text\<close>

text \<open>
  A Python string is modelled as the HOL string of its UTF-8 encoding: one byte for
  an ASCII character, two to four bytes for any other. Where the code looks at
  characters (whitespace, word characters, escapes), the model reads the bytes one
  encoded character at a time.
\<close>

abbreviation (input) nl :: char where
  "nl \<equiv> CHR 0x0A"

abbreviation (input) sq :: char where
  "sq \<equiv> CHR 0x27"

abbreviation (input) dq :: char where
  "dq \<equiv> CHR 0x22"

text \<open>The number of bytes of the character that starts with the byte \<open>b\<close>.\<close>

definition utf8_len :: "char \<Rightarrow> nat" where
  "utf8_len b =
     (let n = (of_char b :: nat)
      in if n < 0xC0 then 1 else if n < 0xE0 then 2 else if n < 0xF0 then 3 else 4)"

text \<open>A continuation byte: any byte of an encoded character but its first.\<close>

definition is_cont :: "char \<Rightarrow> bool" where
  "is_cont b = (0x80 \<le> (of_char b :: nat) \<and> (of_char b :: nat) < 0xC0)"

definition first_char :: "string \<Rightarrow> string" where
  "first_char s = (case s of [] \<Rightarrow> [] | b # _ \<Rightarrow> take (utf8_len b) s)"

definition rest_chars :: "string \<Rightarrow> string" where
  "rest_chars s = (case s of [] \<Rightarrow> [] | b # _ \<Rightarrow> drop (utf8_len b) s)"

definition last_char :: "string \<Rightarrow> string" where
  "last_char s = drop (length s - Suc (length (takeWhile is_cont (rev s)))) s"

text \<open>The bytes of one whole character, as far as their number goes.\<close>

definition is_char :: "string \<Rightarrow> bool" where
  "is_char c = (c \<noteq> [] \<and> length c = utf8_len (hd c))"

text \<open>
  The characters \<^verbatim>\<open>str.isspace\<close> holds of, which are the ones \<^verbatim>\<open>str.strip()\<close>
  removes: the ASCII ones, U+0085, U+00A0, U+1680, U+2000 to U+200A, U+2028, U+2029,
  U+202F, U+205F and U+3000.
\<close>

definition whitespace :: "string list" where
  "whitespace =
     [[CHR 0x09], [CHR 0x0A], [CHR 0x0B], [CHR 0x0C], [CHR 0x0D], [CHR 0x1C], [CHR 0x1D],
      [CHR 0x1E], [CHR 0x1F], [CHR 0x20], [CHR 0xC2, CHR 0x85], [CHR 0xC2, CHR 0xA0],
      [CHR 0xE1, CHR 0x9A, CHR 0x80], [CHR 0xE2, CHR 0x80, CHR 0x80],
      [CHR 0xE2, CHR 0x80, CHR 0x81], [CHR 0xE2, CHR 0x80, CHR 0x82],
      [CHR 0xE2, CHR 0x80, CHR 0x83], [CHR 0xE2, CHR 0x80, CHR 0x84],
      [CHR 0xE2, CHR 0x80, CHR 0x85], [CHR 0xE2, CHR 0x80, CHR 0x86],
      [CHR 0xE2, CHR 0x80, CHR 0x87], [CHR 0xE2, CHR 0x80, CHR 0x88],
      [CHR 0xE2, CHR 0x80, CHR 0x89], [CHR 0xE2, CHR 0x80, CHR 0x8A],
      [CHR 0xE2, CHR 0x80, CHR 0xA8], [CHR 0xE2, CHR 0x80, CHR 0xA9],
      [CHR 0xE2, CHR 0x80, CHR 0xAF], [CHR 0xE2, CHR 0x81, CHR 0x9F],
      [CHR 0xE3, CHR 0x80, CHR 0x80]]"

definition is_space :: "string \<Rightarrow> bool" where
  "is_space c = (c \<in> set whitespace)"

function lstrip :: "string \<Rightarrow> string" where
  "lstrip s = (if s \<noteq> [] \<and> is_space (first_char s) then lstrip (rest_chars s) else s)"
  by pat_completeness auto
termination
  by (relation "measure length")
     (auto simp: rest_chars_def utf8_len_def Let_def split: list.splits)

function rstrip :: "string \<Rightarrow> string" where
  "rstrip s =
     (if s \<noteq> [] \<and> is_space (last_char s)
      then rstrip (take (length s - length (last_char s)) s) else s)"
  by pat_completeness auto
termination
  by (relation "measure length") (auto simp: last_char_def)

declare lstrip.simps [simp del] rstrip.simps [simp del]

definition strip :: "string \<Rightarrow> string" where
  "strip s = rstrip (lstrip s)"

text \<open>
  The characters the pattern \<^verbatim>\<open>\w\<close> matches: letters, digits and the underscore.
  Which characters beyond ASCII are letters or digits is decided by the Unicode
  database of the Python runtime, which differs between versions: it is the
  parameter \<open>alnum\<close>, asked about one encoded character.
\<close>

definition ascii_word :: "char \<Rightarrow> bool" where
  "ascii_word b =
     (let n = (of_char b :: nat)
      in (48 \<le> n \<and> n \<le> 57) \<or> (65 \<le> n \<and> n \<le> 90) \<or> n = 95 \<or> (97 \<le> n \<and> n \<le> 122))"

definition is_word :: "(string \<Rightarrow> bool) \<Rightarrow> string \<Rightarrow> bool" where
  "is_word alnum c = (case c of [b] \<Rightarrow> ascii_word b | _ \<Rightarrow> is_char c \<and> alnum c)"

text \<open>The rest of a string after its longest prefix of word characters.\<close>

function skip_word :: "(string \<Rightarrow> bool) \<Rightarrow> string \<Rightarrow> string" where
  "skip_word alnum s =
     (if s \<noteq> [] \<and> is_word alnum (first_char s) then skip_word alnum (rest_chars s) else s)"
  by pat_completeness auto
termination
  by (relation "measure (\<lambda>(alnum, s). length s)")
     (auto simp: rest_chars_def utf8_len_def Let_def split: list.splits)

declare skip_word.simps [simp del]

text \<open>
  \<^verbatim>\<open>str.replace(old, new)\<close>: every non-overlapping occurrence of \<open>old\<close>, leftmost
  first; an empty \<open>old\<close> matches before every character and at the end.
\<close>

function str_replace :: "string \<Rightarrow> string \<Rightarrow> string \<Rightarrow> string" where
  "str_replace old new [] = (if old = [] then new else [])"
| "str_replace old new (c # cs) =
     (if old = [] then new @ c # str_replace old new cs
      else if prefix old (c # cs) then new @ str_replace old new (drop (length old) (c # cs))
      else c # str_replace old new cs)"
  by pat_completeness auto
termination
  by (relation "measure (\<lambda>(old, new, s). length s)") auto

section \<open>Cleaning the model's answer\<close>

text \<open>
  \<^verbatim>\<open>re.sub(r'^```\w*\n', '', code)\<close>: without the MULTILINE flag the anchor matches
  at the start only, so at most one prefix is removed: three backticks, the longest
  run of word characters, and a newline right after it.
\<close>

definition sub_fence_open :: "(string \<Rightarrow> bool) \<Rightarrow> string \<Rightarrow> string" where
  "sub_fence_open alnum s =
     (if prefix ''```'' s
      then (case skip_word alnum (drop 3 s) of
              [] \<Rightarrow> s
            | c # r \<Rightarrow> if c = nl then r else s)
      else s)"

text \<open>
  \<^verbatim>\<open>re.sub(r'\n```$', '', code)\<close>: the dollar matches at the end of the string and
  before a newline that ends the string, and the two cannot both match.
\<close>

definition sub_fence_close :: "string \<Rightarrow> string" where
  "sub_fence_close s =
     (if suffix (nl # ''```'') s then take (length s - 4) s
      else if suffix (nl # ''```'' @ [nl]) s then take (length s - 5) s @ [nl]
      else s)"

definition clean_code :: "(string \<Rightarrow> bool) \<Rightarrow> string \<Rightarrow> string" where
  "clean_code alnum code = sub_fence_close (sub_fence_open alnum (strip code))"

text \<open>
  A string that starts with a fence line: three backticks, a tag of word characters
  and a newline.
\<close>

definition opens_with_fence :: "(string \<Rightarrow> bool) \<Rightarrow> string \<Rightarrow> bool" where
  "opens_with_fence alnum s =
     (prefix ''```'' s \<and> prefix [nl] (skip_word alnum (drop 3 s)))"

text \<open>
  Code the cleaning has nothing to do on: no whitespace character at either end, no
  fence line at the start, no newline and three backticks at the end.
\<close>

definition already_clean :: "(string \<Rightarrow> bool) \<Rightarrow> string \<Rightarrow> bool" where
  "already_clean alnum s =
     ((s = [] \<or> (\<not> is_space (first_char s) \<and> \<not> is_space (last_char s)))
      \<and> \<not> opens_with_fence alnum s \<and> \<not> suffix (nl # ''```'') s)"

text \<open>
  Code between a fence line and a closing fence line; the tag of the fence line is
  given as the list of its characters.
\<close>

definition fenced :: "string list \<Rightarrow> string \<Rightarrow> string" where
  "fenced tag code = ''```'' @ concat tag @ [nl] @ code @ [nl] @ ''```''"

text \<open>
  A Unicode database that knows the letters of Latin-1, U+00C0 to U+00FF without the
  two signs among them, and nothing else beyond ASCII.
\<close>

definition latin_alnum :: "string \<Rightarrow> bool" where
  "latin_alnum c =
     (case c of
        [a, b] \<Rightarrow> a = CHR 0xC3 \<and> is_cont b \<and> b \<noteq> CHR 0x97 \<and> b \<noteq> CHR 0xB7
      | _ \<Rightarrow> False)"

section \<open>Errors\<close>

text \<open>
  The exceptions of the program, each with the text \<^verbatim>\<open>str(e)\<close> gives. All of them
  are subclasses of \<^verbatim>\<open>Exception\<close>, so \<^verbatim>\<open>except Exception\<close> catches every one.
  \<open>ExternalError\<close> stands for any other exception an external collaborator raises
  (network, service, framework).
\<close>

datatype error =
    ValueError string
  | ImportError string
  | AttributeError string
  | KeyError string
  | IndexError string
  | OSError string
  | ZeroDivisionError string
  | ExternalError string

fun error_message :: "error \<Rightarrow> string" where
  "error_message (ValueError m) = m"
| "error_message (ImportError m) = m"
| "error_message (AttributeError m) = m"
| "error_message (KeyError m) = m"
| "error_message (IndexError m) = m"
| "error_message (OSError m) = m"
| "error_message (ZeroDivisionError m) = m"
| "error_message (ExternalError m) = m"

section \<open>Dataset instances and the prompt\<close>

text \<open>
  The values of an instance, as far as \<^verbatim>\<open>generate_viewer\<close> looks at them. A float
  carries the text \<^verbatim>\<open>str\<close> prints for it; any other object carries the qualified
  name of its type and the type's \<^verbatim>\<open>__name__\<close>. The keys of a mapping are strings, as
  the field names of a dataset feature are.
\<close>

datatype pyval =
    PyStr string
  | PyInt int
  | PyFloat string
  | PyBool bool
  | PyList "pyval list"
  | PyTuple "pyval list"
  | PyDict "(string \<times> pyval) list"
  | PyObject string string

type_synonym dataset_instance = "(string \<times> pyval) list"

type_synonym dataset = "string \<rightharpoonup> dataset_instance list"

fun str_nat :: "nat \<Rightarrow> string" where
  "str_nat n =
     (if n < 10 then [char_of (48 + n)]
      else str_nat (n div 10) @ [char_of (48 + n mod 10)])"

definition str_int :: "int \<Rightarrow> string" where
  "str_int i = (if i < 0 then CHR ''-'' # str_nat (nat (- i)) else str_nat (nat i))"

fun str_join :: "string \<Rightarrow> string list \<Rightarrow> string" where
  "str_join sep [] = []"
| "str_join sep [x] = x"
| "str_join sep (x # y # ys) = x @ sep @ str_join sep (y # ys)"

text \<open>\<^verbatim>\<open>str(type(v))\<close>\<close>

fun type_repr :: "pyval \<Rightarrow> string" where
  "type_repr (PyStr _) = ''<class '' @ [sq] @ ''str'' @ [sq] @ ''>''"
| "type_repr (PyInt _) = ''<class '' @ [sq] @ ''int'' @ [sq] @ ''>''"
| "type_repr (PyFloat _) = ''<class '' @ [sq] @ ''float'' @ [sq] @ ''>''"
| "type_repr (PyBool _) = ''<class '' @ [sq] @ ''bool'' @ [sq] @ ''>''"
| "type_repr (PyList _) = ''<class '' @ [sq] @ ''list'' @ [sq] @ ''>''"
| "type_repr (PyTuple _) = ''<class '' @ [sq] @ ''tuple'' @ [sq] @ ''>''"
| "type_repr (PyDict _) = ''<class '' @ [sq] @ ''dict'' @ [sq] @ ''>''"
| "type_repr (PyObject qualified _) = ''<class '' @ [sq] @ qualified @ [sq] @ ''>''"

fun format_value :: "pyval \<Rightarrow> string" where
  "format_value (PyStr s) = s"
| "format_value (PyInt i) = str_int i"
| "format_value (PyFloat text) = text"
| "format_value (PyBool b) = (if b then ''True'' else ''False'')"
| "format_value (PyList xs) = ''[list with '' @ str_nat (length xs) @ '' elements]''"
| "format_value (PyTuple xs) = ''[list with '' @ str_nat (length xs) @ '' elements]''"
| "format_value (PyDict kvs) = ''{dict with keys: '' @ str_join '', '' (map fst kvs) @ ''}''"
| "format_value (PyObject _ name) = ''['' @ name @ '']''"

text \<open>
  \<^verbatim>\<open>json.dumps(d, indent=2)\<close> for a mapping from strings to strings, with the
  default \<^verbatim>\<open>ensure_ascii\<close>: the double quote, the backslash and every character
  outside the printable ASCII range are escaped, a character beyond ASCII by its code
  point, as a surrogate pair above U+FFFF.
\<close>

definition hex_digit :: "nat \<Rightarrow> char" where
  "hex_digit n = (if n < 10 then char_of (48 + n) else char_of (87 + n))"

definition hex2 :: "nat \<Rightarrow> string" where
  "hex2 n = [hex_digit (n div 16 mod 16), hex_digit (n mod 16)]"

definition hex4 :: "nat \<Rightarrow> string" where
  "hex4 n = hex2 (n div 256) @ hex2 n"

text \<open>The code point of one encoded character.\<close>

definition code_point :: "string \<Rightarrow> nat" where
  "code_point c =
     (case map of_char c of
        [a] \<Rightarrow> a
      | [a, b] \<Rightarrow> (a mod 32) * 64 + b mod 64
      | [a, b, c] \<Rightarrow> (a mod 16) * 4096 + (b mod 64) * 64 + c mod 64
      | [a, b, c, d] \<Rightarrow> (a mod 8) * 262144 + (b mod 64) * 4096 + (c mod 64) * 64 + d mod 64
      | _ \<Rightarrow> 0)"

definition json_escape :: "string \<Rightarrow> string" where
  "json_escape c =
     (let n = code_point c
      in if c = [dq] then [CHR 0x5C, dq]
         else if c = [CHR 0x5C] then [CHR 0x5C, CHR 0x5C]
         else if c = [nl] then [CHR 0x5C, CHR ''n'']
         else if c = [CHR 0x0D] then [CHR 0x5C, CHR ''r'']
         else if c = [CHR 0x09] then [CHR 0x5C, CHR ''t'']
         else if c = [CHR 0x08] then [CHR 0x5C, CHR ''b'']
         else if c = [CHR 0x0C] then [CHR 0x5C, CHR ''f'']
         else if 32 \<le> n \<and> n \<le> 126 then c
         else if n < 0x10000 then [CHR 0x5C, CHR ''u''] @ hex4 n
         else [CHR 0x5C, CHR ''u''] @ hex4 (0xD800 + (n - 0x10000) div 1024) @
              [CHR 0x5C, CHR ''u''] @ hex4 (0xDC00 + (n - 0x10000) mod 1024))"

function json_chars :: "string \<Rightarrow> string" where
  "json_chars s = (if s = [] then [] else json_escape (first_char s) @ json_chars (rest_chars s))"
  by pat_completeness auto
termination
  by (relation "measure length")
     (auto simp: rest_chars_def utf8_len_def Let_def split: list.splits)

declare json_chars.simps [simp del]

definition json_string :: "string \<Rightarrow> string" where
  "json_string s = [dq] @ json_chars s @ [dq]"

definition json_dumps :: "(string \<times> string) list \<Rightarrow> string" where
  "json_dumps d =
     (if d = [] then ''{}''
      else ''{'' @ [nl] @
           str_join ('','' @ [nl]) (map (\<lambda>(k, v). ''  '' @ json_string k @ '': '' @ json_string v) d) @
           [nl] @ ''}'')"

text \<open>
  \<^verbatim>\<open>repr\<close> of a string, which is the text of a \<^verbatim>\<open>KeyError\<close> and the way an
  \<^verbatim>\<open>OSError\<close> shows its path: double quotes when the string has a single quote and
  no double quote, single quotes otherwise. Characters beyond ASCII are taken to be
  printable and stand as they are.
\<close>

definition repr_escape :: "char \<Rightarrow> char \<Rightarrow> string" where
  "repr_escape quote b =
     (let n = (of_char b :: nat)
      in if b = quote \<or> b = CHR 0x5C then [CHR 0x5C, b]
         else if b = CHR 0x09 then [CHR 0x5C, CHR ''t'']
         else if b = nl then [CHR 0x5C, CHR ''n'']
         else if b = CHR 0x0D then [CHR 0x5C, CHR ''r'']
         else if n < 32 \<or> n = 127 then [CHR 0x5C, CHR ''x''] @ hex2 n
         else [b])"

definition py_repr :: "string \<Rightarrow> string" where
  "py_repr s =
     (let quote = (if sq \<in> set s \<and> dq \<notin> set s then dq else sq)
      in [quote] @ concat (map (repr_escape quote) s) @ [quote])"

text \<open>
  The text of \<^verbatim>\<open>base_prompt\<close> between its fields \<^verbatim>\<open>{readme}\<close>, \<^verbatim>\<open>{features}\<close>,
  \<^verbatim>\<open>{example}\<close> and \<^verbatim>\<open>{extra_requirements}\<close>.
\<close>

definition base_prompt_0 :: string where
  "base_prompt_0 =
     ''Generate a Streamlit Python script to visualize instances from a dataset.'' @ [nl] @
     ''        The script must define a function called '' @ [sq] @ ''display_instance'' @ [sq] @ '' that takes a single parameter '' @ [sq] @ ''instance'' @ [sq] @ '' '' @ [nl] @
     ''        and visualizes it appropriately.'' @ [nl] @
     ''        '' @ [nl] @
     ''        Dataset Information:'' @ [nl] @
     ''        ''"

definition base_prompt_1 :: string where
  "base_prompt_1 =
     [nl] @
     ''        '' @ [nl] @
     ''        The instance has these features and types: ''"

definition base_prompt_2 :: string where
  "base_prompt_2 =
     [nl] @
     ''        '' @ [nl] @
     ''        Here'' @ [sq] @ ''s an example instance from the dataset:'' @ [nl] @
     ''        ''"

definition base_prompt_3 :: string where
  "base_prompt_3 =
     [nl] @
     ''        '' @ [nl] @
     ''        Requirements:'' @ [nl] @
     ''        - Create a function called '' @ [sq] @ ''display_instance(instance)'' @ [sq] @ '' that handles the visualization'' @ [nl] @
     ''        - Display all fields appropriately (text, images, audio, etc.)'' @ [nl] @
     ''        - Make it visually appealing with proper headers and sections'' @ [nl] @
     ''        - Handle all data types properly'' @ [nl] @
     ''        - Use st.columns where appropriate for layout'' @ [nl] @
     ''        - Don'' @ [sq] @ ''t include any navigation controls (they'' @ [sq] @ ''re handled elsewhere)'' @ [nl] @
     ''        - Do not include markdown code block markers (```)'' @ [nl] @
     ''        - Consider the dataset'' @ [sq] @ ''s purpose and content when designing the visualization'' @ [nl] @
     ''        - Use the example instance as a guide for formatting and layout'' @ [nl] @
     ''        ''"

definition base_prompt_4 :: string where
  "base_prompt_4 =
     [nl] @
     ''        '' @ [nl] @
     ''        The function will be called with the current instance at the end of the script.'' @ [nl] @
     ''        Only respond with the raw Python code, no explanations.''"

definition system_message :: string where
  "system_message =
     ''You are a Python expert specializing in Streamlit and data visualization.'' @ [nl] @
     ''        Create visualizations that are appropriate for the dataset'' @ [sq] @ ''s purpose and content.'' @ [nl] @
     ''        Provide only raw Python code without markdown formatting.''"

definition readme_section :: "string option \<Rightarrow> string" where
  "readme_section readme =
     (case readme of
        None \<Rightarrow> ''No README available for this dataset.''
      | Some t \<Rightarrow>
          if t \<noteq> [] then ''Dataset README:'' @ [nl] @ t
          else ''No README available for this dataset.'')"

definition build_prompt :: "dataset_instance \<Rightarrow> string option \<Rightarrow> string \<Rightarrow> string" where
  "build_prompt sample readme extra_prompt =
     (let features = map (\<lambda>(k, v). (k, type_repr v)) sample;
          example_instance = map (\<lambda>(k, v). (k, format_value v)) sample
      in base_prompt_0 @ readme_section readme @
         base_prompt_1 @ json_dumps features @
         base_prompt_2 @ json_dumps example_instance @
         base_prompt_3 @
         (if extra_prompt \<noteq> [] then [nl] @ ''Additional requirements:'' @ [nl] @ extra_prompt
          else []) @
         base_prompt_4)"

section \<open>The viewer script\<close>

text \<open>
  The text of \<^verbatim>\<open>viewer_template\<close> between its fields \<^verbatim>\<open>{dataset_name}\<close>,
  \<^verbatim>\<open>{split}\<close>, \<^verbatim>\<open>{dataset_name}\<close> and \<^verbatim>\<open>{viewer_code}\<close>, with the doubled braces
  of the template read as \<^verbatim>\<open>str.format\<close> reads them. The characters beyond ASCII in
  the button labels are given as their UTF-8 bytes.
\<close>

definition viewer_template_0 :: string where
  "viewer_template_0 =
     [nl] @
     ''import streamlit as st'' @ [nl] @
     ''import random'' @ [nl] @
     ''from datasets import load_dataset'' @ [nl] @
     [nl] @
     ''# Cache the dataset loading'' @ [nl] @
     ''@st.cache_resource'' @ [nl] @
     ''def get_dataset():'' @ [nl] @
     ''    return load_dataset('' @ [dq]"

definition viewer_template_1 :: string where
  "viewer_template_1 =
     [dq] @ '')'' @ [nl] @
     [nl] @
     ''# Get the dataset'' @ [nl] @
     ''dataset = get_dataset()'' @ [nl] @
     ''split = '' @ [dq]"

definition viewer_template_2 :: string where
  "viewer_template_2 =
     [dq] @ [nl] @
     ''data = dataset[split]'' @ [nl] @
     [nl] @
     ''# Session state for index tracking'' @ [nl] @
     ''if '' @ [sq] @ ''current_index'' @ [sq] @ '' not in st.session_state:'' @ [nl] @
     ''    st.session_state.current_index = 0'' @ [nl] @
     [nl] @
     ''# Navigation controls'' @ [nl] @
     ''st.title('' @ [dq] @ ''Dataset Viewer: ''"

definition viewer_template_3 :: string where
  "viewer_template_3 =
     [dq] @ '')'' @ [nl] @
     [nl] @
     ''col1, col2, col3, col4 = st.columns([1, 1, 1, 2])'' @ [nl] @
     [nl] @
     ''with col1:'' @ [nl] @
     ''    if st.button('' @ [dq, CHR 0xE2, CHR 0x80, CHR 0x9A, CHR 0xC2, CHR 0xA8, CHR 0xC3, CHR 0x96, CHR 0xC3, CHR 0x94, CHR 0xE2, CHR 0x88, CHR 0x8F, CHR 0xC3, CHR 0xA8] @ '' Previous'' @ [dq] @ ''):'' @ [nl] @
     ''        st.session_state.current_index = (st.session_state.current_index - 1) % len(data)'' @ [nl] @
     [nl] @
     ''with col2:'' @ [nl] @
     ''    if st.button('' @ [dq] @ ''Random '' @ [CHR 0xEF, CHR 0xA3, CHR 0xBF, CHR 0xC3, CHR 0xBC, CHR 0xC3, CHR 0xA9, CHR 0xE2, CHR 0x89, CHR 0xA4, dq] @ ''):'' @ [nl] @
     ''        st.session_state.current_index = random.randint(0, len(data) - 1)'' @ [nl] @
     [nl] @
     ''with col3:'' @ [nl] @
     ''    if st.button('' @ [dq] @ ''Next '' @ [CHR 0xE2, CHR 0x80, CHR 0x9A, CHR 0xC3, CHR 0xBB, CHR 0xC2, CHR 0xB0, CHR 0xC3, CHR 0x94, CHR 0xE2, CHR 0x88, CHR 0x8F, CHR 0xC3, CHR 0xA8, dq] @ ''):'' @ [nl] @
     ''        st.session_state.current_index = (st.session_state.current_index + 1) % len(data)'' @ [nl] @
     [nl] @
     ''with col4:'' @ [nl] @
     ''    st.session_state.current_index = st.number_input('' @ [nl] @
     ''        '' @ [dq] @ ''Go to index'' @ [dq] @ '', '' @ [nl] @
     ''        min_value=0, '' @ [nl] @
     ''        max_value=len(data) - 1, '' @ [nl] @
     ''        value=st.session_state.current_index'' @ [nl] @
     ''    )'' @ [nl] @
     [nl] @
     ''st.write(f'' @ [dq] @ ''Showing instance {st.session_state.current_index} of {len(data) - 1}'' @ [dq] @ '')'' @ [nl] @
     [nl] @
     ''# Get current instance'' @ [nl] @
     ''instance = data[st.session_state.current_index]'' @ [nl] @
     [nl]"

definition viewer_template_4 :: string where
  "viewer_template_4 =
     [nl] @
     [nl] @
     ''# Always call display_instance with current instance'' @ [nl] @
     ''display_instance(instance)'' @ [nl]"

text \<open>\<^verbatim>\<open>str.format\<close> prints \<^verbatim>\<open>None\<close> as the text None.\<close>

definition format_field :: "string option \<Rightarrow> string" where
  "format_field v = (case v of None \<Rightarrow> ''None'' | Some s \<Rightarrow> s)"

definition fill_template :: "string option \<Rightarrow> string \<Rightarrow> string \<Rightarrow> string" where
  "fill_template name split viewer_code =
     viewer_template_0 @ format_field name @
     viewer_template_1 @ split @
     viewer_template_2 @ format_field name @
     viewer_template_3 @ viewer_code @
     viewer_template_4"

section \<open>The world outside the program\<close>

text \<open>
  Everything the program reaches outside its own objects: the environment variables,
  the optional client libraries, the Unicode database of the runtime (which characters
  beyond ASCII are letters or digits), the dataset hub, the model service, the local
  files, the spinner's stop flag, and a trace of the external interactions in the
  order they happen. The external collaborators are oracles: each answers with a value or
  with the exception it raises. The model service may answer differently from call to
  call, so it also sees the trace so far.
\<close>

datatype node = File string | Directory

datatype llm_client = Claude string | GPT4 string

datatype event =
    Printed string
  | Path_checked string
  | Dataset_requested string
  | Hub_file_requested string string
  | File_read string
  | Model_called llm_client string string
  | Callback_called
  | File_written string string
  | Spinner_started
  | Spinner_joined
  | Shell_command string

record world =
  environ :: "string \<rightharpoonup> string"
  anthropic_installed :: bool
  openai_installed :: bool
  hub_client_installed :: bool
  unicode_alnum :: "string \<Rightarrow> bool"
  hub_datasets :: "string \<Rightarrow> error + dataset"
  hub_files :: "string \<Rightarrow> string \<Rightarrow> error + string"
  model_service :: "event list \<Rightarrow> llm_client \<Rightarrow> string \<Rightarrow> string \<Rightarrow> error + string"
  files :: "string \<rightharpoonup> node"
  write_error :: "string \<Rightarrow> error option"
  spinner_done :: bool
  events :: "event list"

definition log :: "event \<Rightarrow> world \<Rightarrow> world" where
  "log e w = w\<lparr>events := events w @ [e]\<rparr>"

text \<open>\<^verbatim>\<open>os.path.exists\<close>: true of a file and of a directory.\<close>

definition path_exists :: "world \<Rightarrow> string \<Rightarrow> bool" where
  "path_exists w path = (files w path \<noteq> None)"

text \<open>\<^verbatim>\<open>Path(path).read_text()\<close>\<close>

definition read_text :: "string \<Rightarrow> world \<Rightarrow> (error + string) \<times> world" where
  "read_text path w =
     (case files w path of
        Some (File text) \<Rightarrow> (Inr text, log (File_read path) w)
      | Some Directory \<Rightarrow>
          (Inl (OSError (''[Errno 21] Is a directory: '' @ py_repr path)), log (File_read path) w)
      | None \<Rightarrow>
          (Inl (OSError (''[Errno 2] No such file or directory: '' @ py_repr path)),
           log (File_read path) w))"

text \<open>
  \<^verbatim>\<open>with open(path, "w") as f: f.write(text)\<close>: opening fails on a directory and
  wherever the world refuses the write (permissions, a missing parent directory);
  otherwise the file holds exactly \<open>text\<close> afterwards.
\<close>

definition write_file :: "string \<Rightarrow> string \<Rightarrow> world \<Rightarrow> error option \<times> world" where
  "write_file path text w =
     (if files w path = Some Directory
      then (Some (OSError (''[Errno 21] Is a directory: '' @ py_repr path)), w)
      else case write_error w path of
             Some e \<Rightarrow> (Some e, w)
           | None \<Rightarrow> (None, log (File_written path text) (w\<lparr>files := (files w)(path \<mapsto> File text)\<rparr>)))"

section \<open>The language-model clients\<close>

text \<open>
  The constructors of \<^verbatim>\<open>Claude\<close> and \<^verbatim>\<open>GPT4\<close>: each fails when its client library
  could not be imported.
\<close>

definition new_Claude :: "world \<Rightarrow> string \<Rightarrow> error + llm_client" where
  "new_Claude w api_key =
     (if anthropic_installed w then Inr (Claude api_key)
      else Inl (ImportError
        (''Anthropic is not installed. Please install it using '' @ [sq] @
         ''pip install anthropic'' @ [sq] @ ''.'')))"

definition new_GPT4 :: "world \<Rightarrow> string \<Rightarrow> error + llm_client" where
  "new_GPT4 w api_key =
     (if openai_installed w then Inr (GPT4 api_key)
      else Inl (ImportError
        (''OpenAI is not installed. Please install it using '' @ [sq] @
         ''pip install openai'' @ [sq] @ ''.'')))"

text \<open>
  \<^verbatim>\<open>generate_code\<close>: one request to the service of the client's vendor. A response
  without text counts as a failure of the call.
\<close>

definition generate_code :: "llm_client \<Rightarrow> string \<Rightarrow> string \<Rightarrow> world \<Rightarrow> (error + string) \<times> world" where
  "generate_code client prompt system_msg w =
     (model_service w (events w) client prompt system_msg,
      log (Model_called client prompt system_msg) w)"

section \<open>DataViewer\<close>

text \<open>
  The object's attributes. \<^verbatim>\<open>dataset_readme\<close> is not assigned by \<^verbatim>\<open>__init__\<close>: the
  outer \<open>None\<close> is the missing attribute, \<open>Some None\<close> the value \<^verbatim>\<open>None\<close>. A progress
  callback may change the world or raise; the trace is not its to rewrite.
\<close>

record DataViewer =
  data :: "dataset option"
  dataset_name :: "string option"
  llm :: "llm_client option"
  progress_callback :: "(world \<Rightarrow> error + world) option"
  dataset_readme :: "string option option"

definition init :: "llm_client option \<Rightarrow> DataViewer" where
  "init client =
     \<lparr>data = None, dataset_name = None, llm = client, progress_callback = None,
      dataset_readme = None\<rparr>"

definition getenv :: "world \<Rightarrow> string \<Rightarrow> string option" where
  "getenv w name = environ w name"

text \<open>
  The truth value Python gives to an optional string: false for \<^verbatim>\<open>None\<close> and for the
  empty string.
\<close>

definition truthy :: "string option \<Rightarrow> bool" where
  "truthy v = (case v of None \<Rightarrow> False | Some s \<Rightarrow> s \<noteq> [])"

text \<open>
  \<^verbatim>\<open>from_environment\<close>: each \<^verbatim>\<open>if os.getenv(name)\<close> holds when the variable is set to
  a non-empty string, which is then the key the client is built with.
\<close>

definition from_environment :: "world \<Rightarrow> error + DataViewer" where
  "from_environment w =
     (case getenv w ''ANTHROPIC_API_KEY'' of
        Some (c # cs) \<Rightarrow>
          (case new_Claude w (c # cs) of
             Inl e \<Rightarrow> Inl e
           | Inr client \<Rightarrow> Inr (init (Some client)))
      | _ \<Rightarrow>
     (case getenv w ''OPENAI_API_KEY'' of
        Some (c # cs) \<Rightarrow>
          (case new_GPT4 w (c # cs) of
             Inl e \<Rightarrow> Inl e
           | Inr client \<Rightarrow> Inr (init (Some client)))
      | _ \<Rightarrow>
          Inl (ValueError
            ''No API keys found. Please set either ANTHROPIC_API_KEY or OPENAI_API_KEY environment variable.'')))"

subsection \<open>Loading a dataset\<close>

text \<open>
  The inner \<^verbatim>\<open>try\<close> of \<^verbatim>\<open>load_dataset\<close>: the first filename, and the second one
  only when the first download raised; \<open>None\<close> when both raised.
\<close>

definition download_readme :: "string \<Rightarrow> world \<Rightarrow> string option \<times> world" where
  "download_readme dataset_url w =
     (let w1 = log (Hub_file_requested dataset_url ''README.md'') w
      in case hub_files w dataset_url ''README.md'' of
           Inr readme_path \<Rightarrow> (Some readme_path, w1)
         | Inl _ \<Rightarrow>
             (let w2 = log (Hub_file_requested dataset_url ''dataset_card.md'') w1
              in case hub_files w dataset_url ''dataset_card.md'' of
                   Inr readme_path \<Rightarrow> (Some readme_path, w2)
                 | Inl _ \<Rightarrow> (None, w2)))"

text \<open>
  The body of the outer \<^verbatim>\<open>try\<close>: the import of the hub client, the downloads, and
  the read of the downloaded file when \<^verbatim>\<open>readme_path\<close> is a non-empty string. It can
  raise at the import and at the read.
\<close>

definition fetch_readme :: "string \<Rightarrow> world \<Rightarrow> (error + string option) \<times> world" where
  "fetch_readme dataset_url w =
     (if \<not> hub_client_installed w
      then (Inl (ImportError (''No module named '' @ [sq] @ ''huggingface_hub'' @ [sq])), w)
      else case download_readme dataset_url w of
             (Some (c # cs), w1) \<Rightarrow>
               (case read_text (c # cs) w1 of
                  (Inl e, w2) \<Rightarrow> (Inl e, w2)
                | (Inr text, w2) \<Rightarrow> (Inr (Some text), w2))
           | (_, w1) \<Rightarrow> (Inr None, w1))"

text \<open>
  \<^verbatim>\<open>load_dataset\<close>: the result is the exception that reaches the caller, if any, the
  object and the world afterwards. An exception of the table loader propagates, with
  the name already assigned; an exception of the documentation fetch is caught.
\<close>

definition load_dataset :: "DataViewer \<Rightarrow> string \<Rightarrow> world \<Rightarrow> error option \<times> DataViewer \<times> world" where
  "load_dataset self dataset_url w =
     (let self1 = self\<lparr>dataset_name := Some dataset_url\<rparr>;
          w1 = log (Dataset_requested dataset_url) w
      in case hub_datasets w dataset_url of
           Inl e \<Rightarrow> (Some e, self1, w1)
         | Inr table \<Rightarrow>
             (let self2 = self1\<lparr>data := Some table\<rparr>
              in case fetch_readme dataset_url w1 of
                   (Inr readme, w2) \<Rightarrow> (None, self2\<lparr>dataset_readme := Some readme\<rparr>, w2)
                 | (Inl _, w2) \<Rightarrow> (None, self2\<lparr>dataset_readme := Some None\<rparr>, w2)))"

subsection \<open>The viewer path\<close>

definition get_viewer_path :: "DataViewer \<Rightarrow> string \<Rightarrow> error + string" where
  "get_viewer_path self split =
     (case dataset_name self of
        None \<Rightarrow>
          Inl (AttributeError
            ([sq] @ ''NoneType'' @ [sq] @ '' object has no attribute '' @ [sq] @ ''replace'' @ [sq]))
      | Some name \<Rightarrow> Inr (''view_'' @ str_replace ''/'' ''_'' name @ ''_'' @ split @ ''.py''))"

definition set_progress_callback :: "DataViewer \<Rightarrow> (world \<Rightarrow> error + world) option \<Rightarrow> DataViewer" where
  "set_progress_callback self callback = self\<lparr>progress_callback := callback\<rparr>"

subsection \<open>Generating the viewer\<close>

text \<open>
  \<^verbatim>\<open>self.data[split][0]\<close>: a \<^verbatim>\<open>KeyError\<close> shows the \<^verbatim>\<open>repr\<close> of the missing key,
  and an empty split raises the \<^verbatim>\<open>IndexError\<close> of the dataset library.
\<close>

definition first_instance :: "dataset \<Rightarrow> string \<Rightarrow> error + dataset_instance" where
  "first_instance table split =
     (case table split of
        None \<Rightarrow> Inl (KeyError (py_repr split))
      | Some [] \<Rightarrow> Inl (IndexError ''Invalid key: 0 is out of bounds for size 0'')
      | Some (sample # _) \<Rightarrow> Inr sample)"

text \<open>\<^verbatim>\<open>if self.progress_callback: self.progress_callback()\<close>\<close>

definition signal_completion :: "DataViewer \<Rightarrow> world \<Rightarrow> error option \<times> world" where
  "signal_completion self w =
     (case progress_callback self of
        None \<Rightarrow> (None, w)
      | Some callback \<Rightarrow>
          (case callback w of
             Inl e \<Rightarrow> (Some e, log Callback_called w)
           | Inr w' \<Rightarrow> (None, w'\<lparr>events := events w @ [Callback_called]\<rparr>)))"

text \<open>
  \<^verbatim>\<open>generate_viewer\<close> after the cache check: the sample, the prompt, the one call of
  the model, the cleaning, the callback and the write.
\<close>

definition generate_fresh ::
  "DataViewer \<Rightarrow> dataset \<Rightarrow> llm_client \<Rightarrow> string \<Rightarrow> string \<Rightarrow> string \<Rightarrow> world \<Rightarrow>
   (error + string) \<times> DataViewer \<times> world" where
  "generate_fresh self table client viewer_path split extra_prompt w =
     (case first_instance table split of
        Inl e \<Rightarrow> (Inl e, self, w)
      | Inr sample \<Rightarrow>
     (case dataset_readme self of
        None \<Rightarrow>
          (Inl (AttributeError
             ([sq] @ ''DataViewer'' @ [sq] @ '' object has no attribute '' @ [sq] @
              ''dataset_readme'' @ [sq])), self, w)
      | Some readme \<Rightarrow>
     (case generate_code client (build_prompt sample readme extra_prompt) system_message w of
        (Inl e, w1) \<Rightarrow> (Inl e, self, w1)
      | (Inr answer, w1) \<Rightarrow>
     (let viewer_code = clean_code (unicode_alnum w) answer
      in case signal_completion self w1 of
           (Some e, w2) \<Rightarrow> (Inl e, self, w2)
         | (None, w2) \<Rightarrow>
     (case write_file viewer_path (fill_template (dataset_name self) split viewer_code) w2 of
        (Some e, w3) \<Rightarrow> (Inl e, self, w3)
      | (None, w3) \<Rightarrow> (Inr viewer_path, self, w3))))))"

text \<open>
  \<^verbatim>\<open>generate_viewer\<close>: the result (the path, or the exception that reaches the
  caller), the object and the world afterwards.
\<close>

definition generate_viewer ::
  "DataViewer \<Rightarrow> string \<Rightarrow> string \<Rightarrow> bool \<Rightarrow> world \<Rightarrow> (error + string) \<times> DataViewer \<times> world" where
  "generate_viewer self split extra_prompt force w =
     (case data self of
        None \<Rightarrow> (Inl (ValueError ''No dataset loaded''), self, w)
      | Some table \<Rightarrow>
     (case llm self of
        None \<Rightarrow> (Inl (ValueError ''No language model configured''), self, w)
      | Some client \<Rightarrow>
     (case get_viewer_path self split of
        Inl e \<Rightarrow> (Inl e, self, w)
      | Inr viewer_path \<Rightarrow>
     (let w1 = log (Path_checked viewer_path) w
      in if path_exists w1 viewer_path \<and> \<not> force
         then (Inr viewer_path, self,
               log (Printed ''Use --force to regenerate the viewer'')
                 (log (Printed (''Using existing viewer at '' @ viewer_path)) w1))
         else generate_fresh self table client viewer_path split extra_prompt w1))))"

text \<open>\<^verbatim>\<open>run_viewer\<close>: generate, then hand the path to the rendering runtime.\<close>

definition run_viewer ::
  "DataViewer \<Rightarrow> string \<Rightarrow> string \<Rightarrow> bool \<Rightarrow> world \<Rightarrow> error option \<times> DataViewer \<times> world" where
  "run_viewer self split extra_prompt force w =
     (case generate_viewer self split extra_prompt force w of
        (Inl e, self1, w1) \<Rightarrow> (Some e, self1, w1)
      | (Inr viewer_path, self1, w1) \<Rightarrow>
          (None, self1, log (Shell_command (''streamlit run '' @ viewer_path)) w1))"

section \<open>The command line\<close>

text \<open>
  The callback \<^verbatim>\<open>main\<close> registers sets the spinner's stop flag. The spinner thread
  only repaints a status line; of it the model keeps the start, the flag and the
  join, which returns once the flag is set.
\<close>

definition progress_done :: "world \<Rightarrow> error + world" where
  "progress_done w = Inr (w\<lparr>spinner_done := True\<rparr>)"

definition echo_spinner :: "world \<Rightarrow> world" where
  "echo_spinner w = log Spinner_started (w\<lparr>spinner_done := False\<rparr>)"

datatype outcome = Completed | Click_exception string | Waits_forever

text \<open>
  The two \<^verbatim>\<open>except\<close> clauses of \<^verbatim>\<open>main\<close>: a \<^verbatim>\<open>ValueError\<close> is reported
  with its own text, any other exception with a prefix.
\<close>

fun report :: "error \<Rightarrow> outcome" where
  "report (ValueError m) = Click_exception m"
| "report e = Click_exception (''Error: '' @ error_message e)"

definition launch :: "DataViewer \<Rightarrow> string \<Rightarrow> string \<Rightarrow> bool \<Rightarrow> world \<Rightarrow> outcome \<times> world" where
  "launch viewer split prompt force w =
     (case run_viewer viewer split prompt force
             (log (Printed ([nl] @ [CHR 0xF0, CHR 0x9F, CHR 0x9A, CHR 0x80] @
                            '' Launching Streamlit...'' @ [nl])) w) of
        (Some e, _, w1) \<Rightarrow> (report e, w1)
      | (None, _, w1) \<Rightarrow> (Completed, w1))"

definition main :: "string \<Rightarrow> string \<Rightarrow> string \<Rightarrow> bool \<Rightarrow> world \<Rightarrow> outcome \<times> world" where
  "main dataset_url split prompt force w =
     (let w1 = log (Printed ([nl] @ [CHR 0xF0, CHR 0x9F, CHR 0x94, CHR 0xA7] @
                             '' Setting up DataViewer for '' @ dataset_url)) w
      in case from_environment w1 of
           Inl e \<Rightarrow> (report e, w1)
         | Inr viewer0 \<Rightarrow>
     (let viewer1 = set_progress_callback viewer0 (Some progress_done);
          w2 = log (Printed ([nl] @ [CHR 0xF0, CHR 0x9F, CHR 0x93, CHR 0x9A] @
                             '' Loading dataset...'')) w1
      in case load_dataset viewer1 dataset_url w2 of
           (Some e, _, w3) \<Rightarrow> (report e, w3)
         | (None, viewer, w3) \<Rightarrow>
     (case get_viewer_path viewer split of
        Inl e \<Rightarrow> (report e, w3)
      | Inr viewer_path \<Rightarrow>
     (let w4 = (if force then w3 else log (Path_checked viewer_path) w3)
      in if force \<or> \<not> path_exists w4 viewer_path
         then (let w5 = echo_spinner
                          (log (Printed ([nl] @ [CHR 0xF0, CHR 0x9F, CHR 0xA4, CHR 0x96] @
                                         '' Generating Streamlit viewer...'')) w4)
               in case generate_viewer viewer split prompt force w5 of
                    (Inl e, _, w6) \<Rightarrow> (report e, w6)
                  | (Inr _, viewer', w6) \<Rightarrow>
                      if spinner_done w6
                      then launch viewer' split prompt force (log Spinner_joined w6)
                      else (Waits_forever, w6))
         else launch viewer split prompt force
                (log (Printed ([nl] @ [CHR 0xF0, CHR 0x9F, CHR 0x93, CHR 0x8B] @
                               '' Using cached viewer'')) w4)))))"

section \<open>Navigation in the generated viewer\<close>

text \<open>
  The navigation code of \<^verbatim>\<open>viewer_template\<close>, which every generated script runs with
  \<open>n = len(data)\<close> and \<open>i = st.session_state.current_index\<close>. Python's \<^verbatim>\<open>%\<close> takes
  the sign of the divisor, as \<open>mod\<close> on \<open>int\<close> does, and raises for a zero divisor.
\<close>

definition py_mod :: "int \<Rightarrow> int \<Rightarrow> error + int" where
  "py_mod a b =
     (if b = 0 then Inl (ZeroDivisionError ''integer modulo by zero'') else Inr (a mod b))"

definition previous_index :: "nat \<Rightarrow> int \<Rightarrow> error + int" where
  "previous_index n i = py_mod (i - 1) (int n)"

definition next_index :: "nat \<Rightarrow> int \<Rightarrow> error + int" where
  "next_index n i = py_mod (i + 1) (int n)"

text \<open>
  \<^verbatim>\<open>random.randint(a, b)\<close> returns an integer from \<open>a\<close> to \<open>b\<close>, both included, each
  with the same probability, and raises on an empty range (the text of the error is
  that of Python 3.11). The model returns the distribution of the draw: the
  probability with which each integer is returned.
\<close>

definition randint :: "int \<Rightarrow> int \<Rightarrow> error + (int \<Rightarrow> real)" where
  "randint a b =
     (if b < a
      then Inl (ValueError
        (''empty range for randrange() ('' @ str_int a @ '', '' @ str_int (b + 1) @ '', '' @
         str_int (b + 1 - a) @ '')''))
      else Inr (\<lambda>k. if a \<le> k \<and> k \<le> b then 1 / real_of_int (b - a + 1) else 0))"

definition random_index :: "nat \<Rightarrow> error + (int \<Rightarrow> real)" where
  "random_index n = randint 0 (int n - 1)"

text \<open>
  \<^verbatim>\<open>st.number_input(label, min_value, max_value, value)\<close>, on integers: it raises
  when \<^verbatim>\<open>value\<close> is outside the bounds (the text is that of recent Streamlit
  versions); otherwise it returns what the user entered in the widget, which accepts
  an entry within the bounds only, and \<^verbatim>\<open>value\<close> when nothing was entered or the
  entry was not accepted.
\<close>

definition number_input :: "int \<Rightarrow> int \<Rightarrow> int \<Rightarrow> int option \<Rightarrow> error + int" where
  "number_input min_value max_value value entered =
     (if value < min_value
      then Inl (ExternalError
        (''The `value` '' @ str_int value @ '' is less than the `min_value` '' @
         str_int min_value @ ''.''))
      else if max_value < value
      then Inl (ExternalError
        (''The `value` '' @ str_int value @ '' is greater than the `max_value` '' @
         str_int max_value @ ''.''))
      else case entered of
             None \<Rightarrow> Inr value
           | Some x \<Rightarrow> if min_value \<le> x \<and> x \<le> max_value then Inr x else Inr value)"

text \<open>The jump control, with the bounds and the start value the script passes.\<close>

definition jump_index :: "nat \<Rightarrow> int \<Rightarrow> int option \<Rightarrow> error + int" where
  "jump_index n i entered = number_input 0 (int n - 1) i entered"

section \<open>Reading the trace\<close>

definition model_calls :: "world \<Rightarrow> event list" where
  "model_calls w =
     filter (\<lambda>e. case e of Model_called _ _ _ \<Rightarrow> True | _ \<Rightarrow> False) (events w)"

definition file_writes :: "world \<Rightarrow> event list" where
  "file_writes w =
     filter (\<lambda>e. case e of File_written _ _ \<Rightarrow> True | _ \<Rightarrow> False) (events w)"

definition dataset_requests :: "world \<Rightarrow> event list" where
  "dataset_requests w =
     filter (\<lambda>e. case e of Dataset_requested _ \<Rightarrow> True | _ \<Rightarrow> False) (events w)"

text \<open>The part of the trace of \<open>w'\<close> that was added after \<open>w\<close>.\<close>

definition new_events :: "world \<Rightarrow> world \<Rightarrow> event list" where
  "new_events w w' = drop (length (events w)) (events w')"

section \<open>A small world to run the program in\<close>

text \<open>
  One split with one instance, a viewer object as \<^verbatim>\<open>load_dataset\<close> leaves it, and a
  world in which the viewer file of that split already exists, the hub serves the
  dataset with a dataset card but no README, the model answers with fenced code, and
  the Unicode database knows the letters of Latin-1.
\<close>

definition mnist_table :: dataset where
  "mnist_table =
     [''train'' \<mapsto>
        [[(''image'', PyObject ''PIL.PngImagePlugin.PngImageFile'' ''PngImageFile''),
          (''label'', PyInt 5)]]]"

definition mnist_viewer :: DataViewer where
  "mnist_viewer =
     \<lparr>data = Some mnist_table, dataset_name = Some ''mnist'', llm = Some (Claude ''key''),
      progress_callback = None, dataset_readme = Some None\<rparr>"

definition mnist_world :: world where
  "mnist_world =
     \<lparr>environ = Map.empty,
      anthropic_installed = True,
      openai_installed = True,
      hub_client_installed = True,
      unicode_alnum = latin_alnum,
      hub_datasets = (\<lambda>name. if name = ''mnist'' then Inr mnist_table
                              else Inl (ExternalError ''not found'')),
      hub_files = (\<lambda>repo filename.
                     if repo = ''mnist'' \<and> filename = ''dataset_card.md'' then Inr ''card.md''
                     else Inl (ExternalError ''not found'')),
      model_service = (\<lambda>trace client prompt system_msg.
                         Inr (''```python'' @ [nl] @ ''display = 1'' @ [nl] @ ''```'')),
      files = [''view_mnist_train.py'' \<mapsto> File ''old viewer'', ''card.md'' \<mapsto> File ''MNIST digits''],
      write_error = (\<lambda>path. None),
      spinner_done = False,
      events = []\<rparr>"

section \<open>Facts about the trace and the files\<close>

lemma files_log: "files (log e w) = files w"
  by (simp add: log_def)

lemma events_log: "events (log e w) = events w @ [e]"
  by (simp add: log_def)

lemma path_exists_log: "path_exists (log e w) path = path_exists w path"
  by (simp add: path_exists_def log_def)

lemma unicode_alnum_log: "unicode_alnum (log e w) = unicode_alnum w"
  by (simp add: log_def)

lemma str_replace_char: "str_replace [a] [b] s = map (\<lambda>c. if c = a then b else c) s"
  by (induction s) auto

section \<open>The viewer path\<close>

text \<open>
  C3. The viewer path depends on the dataset identifier and the split only: it is
  \<^verbatim>\<open>view_<identifier>_<split>.py\<close> with every slash of the identifier replaced by an
  underscore, and two objects with the same identifier derive the same path.
\<close>

theorem viewer_path_derivation:
  "(dataset_name self = Some name \<longrightarrow>
      get_viewer_path self split =
        Inr (''view_'' @ map (\<lambda>c. if c = CHR ''/'' then CHR ''_'' else c) name @ ''_'' @ split @ ''.py''))
   \<and> (dataset_name other = dataset_name self \<longrightarrow>
      get_viewer_path other split = get_viewer_path self split)"
  by (simp add: get_viewer_path_def str_replace_char)

theorem viewer_path_derivation_witness:
  "dataset_name (mnist_viewer\<lparr>dataset_name := Some ''princeton-nlp/SWE-bench''\<rparr>)
     = Some ''princeton-nlp/SWE-bench''
   \<and> get_viewer_path (mnist_viewer\<lparr>dataset_name := Some ''princeton-nlp/SWE-bench''\<rparr>) ''train''
     = Inr ''view_princeton-nlp_SWE-bench_train.py''"
proof -
  let ?v = "mnist_viewer\<lparr>dataset_name := Some ''princeton-nlp/SWE-bench''\<rparr>"
  have h: "dataset_name ?v = Some ''princeton-nlp/SWE-bench''"
    by simp
  from viewer_path_derivation [of ?v "''princeton-nlp/SWE-bench''" "''train''" ?v] h
  have "get_viewer_path ?v ''train'' =
        Inr (''view_'' @ map (\<lambda>c. if c = CHR ''/'' then CHR ''_'' else c) ''princeton-nlp/SWE-bench''
             @ ''_'' @ ''train'' @ ''.py'')"
    by blast
  with h show ?thesis by simp
qed

section \<open>The guard clauses and the cache\<close>

lemma generate_viewer_hit:
  assumes "data self = Some table" and "llm self = Some client"
    and "get_viewer_path self split = Inr viewer_path"
    and "path_exists w viewer_path" and "\<not> force"
  shows "generate_viewer self split extra_prompt force w =
           (Inr viewer_path, self,
            w\<lparr>events := events w @
               [Path_checked viewer_path,
                Printed (''Using existing viewer at '' @ viewer_path),
                Printed ''Use --force to regenerate the viewer'']\<rparr>)"
  using assms
  by (simp add: generate_viewer_def Let_def path_exists_log) (simp add: log_def)

lemma generate_viewer_guard:
  assumes "data self = None \<or> llm self = None"
  shows "generate_viewer self split extra_prompt force w =
           (Inl (ValueError (if data self = None then ''No dataset loaded''
                             else ''No language model configured'')), self, w)"
  using assms by (auto simp: generate_viewer_def split: option.splits)

lemma mnist_path: "get_viewer_path mnist_viewer ''train'' = Inr ''view_mnist_train.py''"
  by (simp add: get_viewer_path_def mnist_viewer_def)

lemma mnist_exists: "path_exists mnist_world ''view_mnist_train.py''"
  by (simp add: path_exists_def mnist_world_def)

text \<open>
  C1. With a loaded dataset and a configured client, an existing node at the viewer
  path and \<open>force\<close> false, \<^verbatim>\<open>generate_viewer\<close> returns the path at once: it looks
  at the path, prints two lines, and the model is not called. Whatever is at the path,
  and however old, counts.
\<close>

theorem generate_viewer_cache_hit:
  assumes "data self = Some table" and "llm self = Some client"
    and "get_viewer_path self split = Inr viewer_path"
    and "path_exists w viewer_path" and "\<not> force"
  shows "generate_viewer self split extra_prompt force w =
           (Inr viewer_path, self,
            w\<lparr>events := events w @
               [Path_checked viewer_path,
                Printed (''Using existing viewer at '' @ viewer_path),
                Printed ''Use --force to regenerate the viewer'']\<rparr>)
         \<and> model_calls (snd (snd (generate_viewer self split extra_prompt force w))) = model_calls w"
proof -
  note hit = generate_viewer_hit [OF assms, of extra_prompt]
  then have "model_calls (snd (snd (generate_viewer self split extra_prompt force w))) = model_calls w"
    by (simp add: model_calls_def)
  with hit show ?thesis by simp
qed

theorem generate_viewer_cache_hit_witness:
  "data mnist_viewer = Some mnist_table \<and> llm mnist_viewer = Some (Claude ''key'')
   \<and> path_exists mnist_world ''view_mnist_train.py''
   \<and> generate_viewer mnist_viewer ''train'' ''bigger fonts'' False mnist_world =
       (Inr ''view_mnist_train.py'', mnist_viewer,
        mnist_world\<lparr>events := events mnist_world @
           [Path_checked ''view_mnist_train.py'',
            Printed (''Using existing viewer at '' @ ''view_mnist_train.py''),
            Printed ''Use --force to regenerate the viewer'']\<rparr>)
   \<and> model_calls (snd (snd (generate_viewer mnist_viewer ''train'' ''bigger fonts'' False mnist_world)))
       = model_calls mnist_world"
proof -
  have d: "data mnist_viewer = Some mnist_table" and l: "llm mnist_viewer = Some (Claude ''key'')"
    by (simp_all add: mnist_viewer_def)
  have f: "\<not> False" by simp
  from generate_viewer_cache_hit [OF d l mnist_path mnist_exists f, of "''bigger fonts''"]
  show ?thesis using d l mnist_exists by blast
qed

text \<open>
  C8. Without a dataset or without a client, \<^verbatim>\<open>generate_viewer\<close> raises a
  \<^verbatim>\<open>ValueError\<close> and leaves the world as it was: nothing was looked at, read, written
  or requested. The dataset is checked first.
\<close>

theorem generate_viewer_precondition:
  assumes "data self = None \<or> llm self = None"
  shows "generate_viewer self split extra_prompt force w =
           (Inl (ValueError (if data self = None then ''No dataset loaded''
                             else ''No language model configured'')), self, w)
         \<and> new_events w (snd (snd (generate_viewer self split extra_prompt force w))) = []"
  using generate_viewer_guard [OF assms, of split extra_prompt force w]
  by (simp add: new_events_def)

theorem generate_viewer_precondition_witness:
  "data (init None) = None
   \<and> generate_viewer (init None) ''train'' [] True mnist_world =
       (Inl (ValueError ''No dataset loaded''), init None, mnist_world)
   \<and> llm (mnist_viewer\<lparr>llm := None\<rparr>) = None
   \<and> generate_viewer (mnist_viewer\<lparr>llm := None\<rparr>) ''train'' [] True mnist_world =
       (Inl (ValueError ''No language model configured''), mnist_viewer\<lparr>llm := None\<rparr>, mnist_world)"
proof -
  have a: "data (init None) = None \<or> llm (init None) = None"
    by (simp add: init_def)
  have b: "data (mnist_viewer\<lparr>llm := None\<rparr>) = None \<or> llm (mnist_viewer\<lparr>llm := None\<rparr>) = None"
    by simp
  have c: "data (init None) = None" "data (mnist_viewer\<lparr>llm := None\<rparr>) \<noteq> None"
    by (simp_all add: init_def mnist_viewer_def)
  from generate_viewer_precondition [OF a, of "''train''" "[]" True mnist_world]
       generate_viewer_precondition [OF b, of "''train''" "[]" True mnist_world] c
  show ?thesis by simp
qed

text \<open>
  C9. The guard clauses come before the cache check: with a node at the viewer path
  and \<open>force\<close> false, a missing dataset or a missing client still raises, the path
  is not returned and the path is not even looked at.
\<close>

theorem precondition_before_cache:
  assumes "data self = None \<or> llm self = None"
    and "get_viewer_path self split = Inr viewer_path"
    and "path_exists w viewer_path"
  shows "generate_viewer self split extra_prompt False w =
           (Inl (ValueError (if data self = None then ''No dataset loaded''
                             else ''No language model configured'')), self, w)
         \<and> fst (generate_viewer self split extra_prompt False w) \<noteq> Inr viewer_path
         \<and> Path_checked viewer_path \<notin>
             set (new_events w (snd (snd (generate_viewer self split extra_prompt False w))))"
  using generate_viewer_guard [OF assms(1), of split extra_prompt False w]
  by (simp add: new_events_def)

theorem precondition_before_cache_witness:
  "llm (mnist_viewer\<lparr>llm := None\<rparr>) = None
   \<and> get_viewer_path (mnist_viewer\<lparr>llm := None\<rparr>) ''train'' = Inr ''view_mnist_train.py''
   \<and> path_exists mnist_world ''view_mnist_train.py''
   \<and> generate_viewer (mnist_viewer\<lparr>llm := None\<rparr>) ''train'' [] False mnist_world =
       (Inl (ValueError ''No language model configured''), mnist_viewer\<lparr>llm := None\<rparr>, mnist_world)"
proof -
  let ?v = "mnist_viewer\<lparr>llm := None\<rparr>"
  have a: "data ?v = None \<or> llm ?v = None"
    by simp
  have p: "get_viewer_path ?v ''train'' = Inr ''view_mnist_train.py''"
    by (simp add: get_viewer_path_def mnist_viewer_def)
  have c: "data ?v \<noteq> None"
    by (simp add: mnist_viewer_def)
  from precondition_before_cache [OF a p mnist_exists, of "[]"] c p mnist_exists
  show ?thesis by simp
qed

text \<open>
  C10. A cache hit changes nothing but the trace: no file is written, the files are
  what they were, and the object is returned with every attribute as it was.
\<close>

theorem cache_hit_frame:
  assumes "data self = Some table" and "llm self = Some client"
    and "get_viewer_path self split = Inr viewer_path"
    and "path_exists w viewer_path" and "\<not> force"
  shows "(case generate_viewer self split extra_prompt force w of
            (result, self', w') \<Rightarrow>
              files w' = files w \<and> file_writes w' = file_writes w
              \<and> w'\<lparr>events := events w\<rparr> = w
              \<and> self' = self
              \<and> data self' = data self \<and> dataset_name self' = dataset_name self
              \<and> llm self' = llm self \<and> progress_callback self' = progress_callback self
              \<and> dataset_readme self' = dataset_readme self)"
  using generate_viewer_hit [OF assms, of extra_prompt]
  by (simp add: file_writes_def)

theorem cache_hit_frame_witness:
  "data mnist_viewer = Some mnist_table \<and> llm mnist_viewer = Some (Claude ''key'')
   \<and> path_exists mnist_world ''view_mnist_train.py''
   \<and> (case generate_viewer mnist_viewer ''train'' [] False mnist_world of
         (result, self', w') \<Rightarrow>
           files w' ''view_mnist_train.py'' = Some (File ''old viewer'')
           \<and> file_writes w' = [] \<and> self' = mnist_viewer)"
proof -
  have d: "data mnist_viewer = Some mnist_table" and l: "llm mnist_viewer = Some (Claude ''key'')"
    by (simp_all add: mnist_viewer_def)
  have f: "\<not> False" by simp
  have o: "files mnist_world ''view_mnist_train.py'' = Some (File ''old viewer'')"
    "file_writes mnist_world = []"
    by (simp_all add: mnist_world_def file_writes_def)
  from cache_hit_frame [OF d l mnist_path mnist_exists f, of "[]"] o d l mnist_exists
  show ?thesis by (auto split: prod.splits)
qed

section \<open>Cleaning the model's answer: what holds\<close>

lemma whitespace_shape:
  "list_all (\<lambda>c. is_char c \<and> \<not> is_cont (hd c) \<and> list_all is_cont (tl c)) whitespace"
  by (simp add: whitespace_def is_char_def utf8_len_def is_cont_def)

lemma is_space_shape:
  assumes "is_space c"
  shows "is_char c" and "\<not> is_cont (hd c)" and "list_all is_cont (tl c)"
  using assms whitespace_shape by (auto simp: is_space_def list_all_iff)

lemma is_word_char: "is_word alnum c \<Longrightarrow> is_char c"
  by (auto simp: is_word_def is_char_def ascii_word_def utf8_len_def Let_def split: list.splits)

lemma first_char_append:
  assumes "is_char c"
  shows "first_char (c @ t) = c" and "rest_chars (c @ t) = t"
proof -
  from assms obtain b bs where c: "c = b # bs" and l: "utf8_len b = Suc (length bs)"
    by (cases c) (auto simp: is_char_def)
  show "first_char (c @ t) = c"
    by (simp add: c first_char_def l)
  show "rest_chars (c @ t) = t"
    by (simp add: c rest_chars_def l)
qed

lemma last_char_append:
  assumes "c \<noteq> []" and "\<not> is_cont (hd c)" and "list_all is_cont (tl c)"
  shows "last_char (t @ c) = c"
proof -
  from assms(1) obtain b bs where c: "c = b # bs" by (cases c) auto
  with assms have b: "\<not> is_cont b" and bs: "list_all is_cont bs" by simp_all
  have "takeWhile is_cont (rev (t @ c)) = rev bs"
    using b bs by (simp add: c takeWhile_append list_all_iff takeWhile_tail)
  then show ?thesis
    by (simp add: last_char_def c)
qed

lemma lstrip_id: "s = [] \<or> \<not> is_space (first_char s) \<Longrightarrow> lstrip s = s"
  by (subst lstrip.simps) auto

lemma rstrip_id: "s = [] \<or> \<not> is_space (last_char s) \<Longrightarrow> rstrip s = s"
  by (subst rstrip.simps) auto

lemma lstrip_spaces: "list_all is_space ws \<Longrightarrow> lstrip (concat ws @ t) = lstrip t"
proof (induction ws)
  case Nil
  then show ?case by simp
next
  case (Cons w ws)
  then have w: "is_space w" and ws: "list_all is_space ws" by simp_all
  from is_space_shape(1) [OF w] have c: "is_char w" .
  then have n: "w \<noteq> []" by (simp add: is_char_def)
  have "lstrip (w @ concat ws @ t) = lstrip (concat ws @ t)"
    using n w by (subst lstrip.simps) (simp add: first_char_append [OF c])
  with Cons.IH [OF ws] show ?case by simp
qed

lemma rstrip_spaces: "list_all is_space ws \<Longrightarrow> rstrip (t @ concat ws) = rstrip t"
proof (induction ws rule: rev_induct)
  case Nil
  then show ?case by simp
next
  case (snoc w ws)
  then have w: "is_space w" and ws: "list_all is_space ws" by simp_all
  from is_space_shape [OF w] have n: "w \<noteq> []" and h: "\<not> is_cont (hd w)"
    and tl: "list_all is_cont (tl w)"
    by (simp_all add: is_char_def)
  have l: "last_char ((t @ concat ws) @ w) = w"
    by (rule last_char_append [OF n h tl])
  have "rstrip ((t @ concat ws) @ w) = rstrip (t @ concat ws)"
    using n w l by (subst rstrip.simps) simp
  with snoc.IH [OF ws] show ?case by simp
qed

lemma skip_word_tag:
  "list_all (is_word alnum) tag \<Longrightarrow> skip_word alnum (concat tag @ nl # r) = nl # r"
proof (induction tag)
  case Nil
  have "\<not> is_word alnum (first_char (nl # r))"
    by (simp add: first_char_def utf8_len_def is_word_def ascii_word_def)
  then show ?case by (subst skip_word.simps) simp
next
  case (Cons c tag)
  then have w: "is_word alnum c" and ws: "list_all (is_word alnum) tag" by simp_all
  from is_word_char [OF w] have ch: "is_char c" .
  then have n: "c \<noteq> []" by (simp add: is_char_def)
  have "skip_word alnum (c @ concat tag @ nl # r) = skip_word alnum (concat tag @ nl # r)"
    using n w by (subst skip_word.simps) (simp add: first_char_append [OF ch])
  with Cons.IH [OF ws] show ?case by simp
qed

lemma tick_not_space:
  "\<not> is_space (first_char (CHR 0x60 # s))" "\<not> is_space (last_char (s @ [CHR 0x60]))"
proof -
  show "\<not> is_space (first_char (CHR 0x60 # s))"
    by (simp add: first_char_def utf8_len_def is_space_def whitespace_def)
  have "last_char (s @ [CHR 0x60]) = [CHR 0x60]"
    by (rule last_char_append) (simp_all add: is_cont_def)
  then show "\<not> is_space (last_char (s @ [CHR 0x60]))"
    by (simp add: is_space_def whitespace_def)
qed

lemma sub_fence_open_id: "\<not> opens_with_fence alnum s \<Longrightarrow> sub_fence_open alnum s = s"
  by (auto simp: opens_with_fence_def sub_fence_open_def split: list.splits)

lemma sub_fence_close_id:
  assumes "\<not> suffix (nl # ''```'') s" and "s = [] \<or> \<not> is_space (last_char s)"
  shows "sub_fence_close s = s"
proof -
  have "\<not> suffix (nl # ''```'' @ [nl]) s"
  proof
    assume "suffix (nl # ''```'' @ [nl]) s"
    then obtain p where p: "s = (p @ nl # ''```'') @ [nl]" by (auto simp: suffix_def)
    have "last_char ((p @ nl # ''```'') @ [nl]) = [nl]"
      by (rule last_char_append) (simp_all add: is_cont_def)
    with p assms(2) show False by (simp add: is_space_def whitespace_def)
  qed
  then show ?thesis using assms(1) by (simp add: sub_fence_close_def)
qed

lemma clean_code_id:
  assumes "already_clean alnum s"
  shows "clean_code alnum s = s"
proof -
  from assms have e: "s = [] \<or> (\<not> is_space (first_char s) \<and> \<not> is_space (last_char s))"
    and o: "\<not> opens_with_fence alnum s" and c: "\<not> suffix (nl # ''```'') s"
    by (simp_all add: already_clean_def)
  from e have f: "s = [] \<or> \<not> is_space (first_char s)" and l: "s = [] \<or> \<not> is_space (last_char s)"
    by blast+
  show ?thesis
    by (simp add: clean_code_def strip_def lstrip_id [OF f] rstrip_id [OF l]
        sub_fence_open_id [OF o] sub_fence_close_id [OF c l])
qed

lemma strip_fenced:
  assumes "list_all is_space before" and "list_all is_space after"
  shows "strip (concat before @ fenced tag code @ concat after) = fenced tag code"
proof -
  let ?f = "fenced tag code"
  have a: "lstrip (concat before @ ?f @ concat after) = ?f @ concat after"
    using tick_not_space(1) [of "''``'' @ concat tag @ [nl] @ code @ [nl] @ ''```'' @ concat after"]
    by (simp add: lstrip_spaces [OF assms(1)] lstrip_id fenced_def)
  have "\<not> is_space (last_char ?f)"
    using tick_not_space(2) [of "''```'' @ concat tag @ [nl] @ code @ [nl] @ ''``''"]
    by (simp add: fenced_def)
  then have b: "rstrip (?f @ concat after) = ?f"
    by (simp add: rstrip_spaces [OF assms(2)] rstrip_id)
  show ?thesis by (simp add: strip_def a b)
qed

lemma clean_code_fenced:
  assumes "list_all is_space before" and "list_all is_space after"
    and "list_all (is_word alnum) tag"
  shows "clean_code alnum (concat before @ fenced tag code @ concat after) = code"
proof -
  have "skip_word alnum (drop 3 (fenced tag code)) = nl # code @ nl # ''```''"
    using skip_word_tag [OF assms(3), of "code @ nl # ''```''"] by (simp add: fenced_def)
  then have o: "sub_fence_open alnum (fenced tag code) = code @ nl # ''```''"
    by (simp add: sub_fence_open_def fenced_def)
  show ?thesis
    by (simp add: clean_code_def strip_fenced [OF assms(1,2)] o sub_fence_close_def suffix_def)
qed

lemma ascii_tag: "list_all ascii_word s \<Longrightarrow> list_all (is_word alnum) (map (\<lambda>b. [b]) s)"
  by (induction s) (simp_all add: is_word_def)

text \<open>
  C2, as amended. \<^verbatim>\<open>_clean_code\<close> leaves a string as it is when the string has no
  whitespace character at either end, no fence line at its start and no newline with
  three backticks at its end. And code between a fence line (three backticks and a
  tag of word characters) and a closing line of three backticks comes back exactly,
  also when whitespace stands before the fence line and after the closing line.
  Both hold for every string, whatever the Unicode database of the runtime counts as
  letters and digits beyond ASCII.
\<close>

theorem clean_code_contract:
  "(already_clean alnum s \<longrightarrow> clean_code alnum s = s)
   \<and> (list_all is_space before \<and> list_all is_space after \<and> list_all (is_word alnum) tag \<longrightarrow>
        clean_code alnum (concat before @ fenced tag code @ concat after) = code)"
  using clean_code_id clean_code_fenced by blast

theorem clean_code_contract_witness:
  "already_clean latin_alnum ''x = 1'' \<and> clean_code latin_alnum ''x = 1'' = ''x = 1''
   \<and> list_all is_space ['' '', [CHR 0xC2, CHR 0xA0]] \<and> list_all is_space [[nl]]
   \<and> list_all (is_word latin_alnum) [''p'', ''y'', [CHR 0xC3, CHR 0xB6]]
   \<and> clean_code latin_alnum
        ('' '' @ [CHR 0xC2, CHR 0xA0, CHR 0x60, CHR 0x60, CHR 0x60] @ ''py'' @ [CHR 0xC3, CHR 0xB6, nl] @
         ''  x = 1'' @ [nl, nl, CHR 0x60, CHR 0x60, CHR 0x60, nl])
       = ''  x = 1'' @ [nl]"
proof -
  have l: "last_char ''x = 1'' = ''1''"
    using last_char_append [of "''1''" "''x = ''"] by (simp add: is_cont_def)
  have a: "already_clean latin_alnum ''x = 1''"
    by (simp add: already_clean_def l opens_with_fence_def first_char_def utf8_len_def
        is_space_def whitespace_def suffix_to_prefix)
  have b: "list_all is_space ['' '', [CHR 0xC2, CHR 0xA0]]" "list_all is_space [[nl]]"
    by (simp_all add: is_space_def whitespace_def)
  have t: "list_all (is_word latin_alnum) [''p'', ''y'', [CHR 0xC3, CHR 0xB6]]"
    by (simp add: is_word_def ascii_word_def latin_alnum_def is_char_def utf8_len_def is_cont_def)
  from clean_code_contract [of latin_alnum "''x = 1''" "['' '', [CHR 0xC2, CHR 0xA0]]" "[[nl]]"
      "[''p'', ''y'', [CHR 0xC3, CHR 0xB6]]" "''  x = 1'' @ [nl]"] a b t
  have "clean_code latin_alnum ''x = 1'' = ''x = 1''
      \<and> clean_code latin_alnum
          (concat ['' '', [CHR 0xC2, CHR 0xA0]] @
           fenced [''p'', ''y'', [CHR 0xC3, CHR 0xB6]] (''  x = 1'' @ [nl]) @ concat [[nl]])
        = ''  x = 1'' @ [nl]"
    by blast
  with a b t show ?thesis by (simp add: fenced_def)
qed

text \<open>
  The cleaning is not idempotent: fenced code that ends with a blank line comes back
  with its last newline, which a second cleaning strips. So a cleaned answer, free of
  fences, is not always left as it is.
\<close>

theorem clean_code_not_idempotent:
  "clean_code latin_alnum (''```'' @ [nl] @ ''x = 1'' @ [nl, nl] @ ''```'') = ''x = 1'' @ [nl]
   \<and> clean_code latin_alnum (clean_code latin_alnum (''```'' @ [nl] @ ''x = 1'' @ [nl, nl] @ ''```''))
       = ''x = 1''
   \<and> clean_code latin_alnum (clean_code latin_alnum (''```'' @ [nl] @ ''x = 1'' @ [nl, nl] @ ''```''))
       \<noteq> clean_code latin_alnum (''```'' @ [nl] @ ''x = 1'' @ [nl, nl] @ ''```'')"
proof -
  have "clean_code latin_alnum (concat [] @ fenced [] (''x = 1'' @ [nl]) @ concat []) = ''x = 1'' @ [nl]"
    by (rule clean_code_fenced) simp_all
  then have a: "clean_code latin_alnum (''```'' @ [nl] @ ''x = 1'' @ [nl, nl] @ ''```'') = ''x = 1'' @ [nl]"
    by (simp add: fenced_def)
  have "strip (concat [] @ ''x = 1'' @ concat [[nl]]) = rstrip ''x = 1''"
    unfolding strip_def using rstrip_spaces [of "[[nl]]" "''x = 1''"]
    by (simp add: lstrip_id first_char_def utf8_len_def is_space_def whitespace_def)
  moreover have "last_char ''x = 1'' = ''1''"
    using last_char_append [of "''1''" "''x = ''"] by (simp add: is_cont_def)
  ultimately have s: "strip (''x = 1'' @ [nl]) = ''x = 1''"
    by (simp add: rstrip_id is_space_def whitespace_def)
  have b: "clean_code latin_alnum (''x = 1'' @ [nl]) = ''x = 1''"
    unfolding clean_code_def s
    by (simp add: sub_fence_open_def sub_fence_close_def suffix_to_prefix)
  from a b show ?thesis by simp
qed

section \<open>Navigation\<close>

text \<open>
  C5. In a split of \<open>n > 0\<close> instances, Next from the last index gives 0 and Previous
  from 0 gives the last index, both being the shifted index modulo \<open>n\<close>, which is
  an index of the split again. Random
  draws uniformly from the indices: each index from 0 to \<open>n - 1\<close> has the probability
  \<open>1 / n\<close>, every other integer the probability 0. The jump control, called with a
  current index within 0 and \<open>n - 1\<close>, returns an index within 0 and \<open>n - 1\<close>: the
  entry when it is within these bounds, the current index when nothing is entered;
  called with a current index outside them, it raises.
\<close>

theorem navigation_arithmetic:
  assumes "0 < n"
  shows "next_index n (int n - 1) = Inr 0
       \<and> previous_index n 0 = Inr (int n - 1)
       \<and> next_index n i = Inr ((i + 1) mod int n)
       \<and> previous_index n i = Inr ((i - 1) mod int n)
       \<and> 0 \<le> (i + 1) mod int n \<and> (i + 1) mod int n \<le> int n - 1
       \<and> 0 \<le> (i - 1) mod int n \<and> (i - 1) mod int n \<le> int n - 1
       \<and> (\<exists>p. random_index n = Inr p
             \<and> (\<forall>k. p k = (if 0 \<le> k \<and> k \<le> int n - 1 then 1 / real n else 0))
             \<and> (\<Sum>k = 0 .. int n - 1. p k) = 1)
       \<and> (0 \<le> i \<and> i \<le> int n - 1 \<longrightarrow>
             (\<exists>j. jump_index n i entered = Inr j \<and> 0 \<le> j \<and> j \<le> int n - 1
                \<and> (entered = None \<longrightarrow> j = i)
                \<and> (\<forall>x. entered = Some x \<and> 0 \<le> x \<and> x \<le> int n - 1 \<longrightarrow> j = x)))
       \<and> (i < 0 \<or> int n - 1 < i \<longrightarrow> isl (jump_index n i entered))"
proof -
  from assms have n: "int n \<noteq> 0" "0 \<le> int n - 1" by simp_all
  have a: "next_index n (int n - 1) = Inr 0"
    using n by (simp add: next_index_def py_mod_def)
  have "(- 1) mod int n = int n - 1"
    using assms by (simp add: zmod_minus1)
  then have b: "previous_index n 0 = Inr (int n - 1)"
    using n by (simp add: previous_index_def py_mod_def)
  have c: "next_index n i = Inr ((i + 1) mod int n)" "previous_index n i = Inr ((i - 1) mod int n)"
    using n by (simp_all add: next_index_def previous_index_def py_mod_def)
  have m: "0 \<le> (i + 1) mod int n \<and> (i + 1) mod int n \<le> int n - 1"
    "0 \<le> (i - 1) mod int n \<and> (i - 1) mod int n \<le> int n - 1"
    using assms pos_mod_sign [of "int n" "i + 1"] pos_mod_bound [of "int n" "i + 1"]
      pos_mod_sign [of "int n" "i - 1"] pos_mod_bound [of "int n" "i - 1"]
    by simp_all
  define p :: "int \<Rightarrow> real" where "p = (\<lambda>k. if 0 \<le> k \<and> k \<le> int n - 1 then 1 / real n else 0)"
  have "real_of_int (int n - 1 - 0 + 1) = real n"
    by simp
  then have r: "random_index n = Inr p"
    using n by (simp add: random_index_def randint_def p_def fun_eq_iff)
  have "(\<Sum>k = 0 .. int n - 1. p k) = (\<Sum>k = 0 .. int n - 1. 1 / real n)"
    by (rule sum.cong) (simp_all add: p_def)
  also have "\<dots> = real (card {0 .. int n - 1}) * (1 / real n)"
    by simp
  also have "\<dots> = 1"
    using assms by simp
  finally have s: "(\<Sum>k = 0 .. int n - 1. p k) = 1" .
  have d: "\<exists>p. random_index n = Inr p
             \<and> (\<forall>k. p k = (if 0 \<le> k \<and> k \<le> int n - 1 then 1 / real n else 0))
             \<and> (\<Sum>k = 0 .. int n - 1. p k) = 1"
    using r s by (intro exI [of _ p]) (simp add: p_def)
  have e: "\<exists>j. jump_index n i entered = Inr j \<and> 0 \<le> j \<and> j \<le> int n - 1
                \<and> (entered = None \<longrightarrow> j = i)
                \<and> (\<forall>x. entered = Some x \<and> 0 \<le> x \<and> x \<le> int n - 1 \<longrightarrow> j = x)"
    if "0 \<le> i" "i \<le> int n - 1"
    using that by (cases entered) (auto simp: jump_index_def number_input_def)
  have f: "isl (jump_index n i entered)" if "i < 0 \<or> int n - 1 < i"
    using that by (auto simp: jump_index_def number_input_def)
  from a b c m d e f show ?thesis by blast
qed

theorem navigation_arithmetic_witness:
  "(0::nat) < 3
   \<and> next_index 3 2 = Inr 0 \<and> previous_index 3 0 = Inr 2
   \<and> (\<exists>p. random_index 3 = Inr p \<and> p 0 = 1 / 3 \<and> p 1 = 1 / 3 \<and> p 2 = 1 / 3 \<and> p 3 = 0
         \<and> p (- 1) = 0)
   \<and> jump_index 3 1 (Some 2) = Inr 2
   \<and> jump_index 3 1 None = Inr 1
   \<and> isl (jump_index 3 7 (Some 2))"
proof -
  have n: "(0::nat) < 3" by simp
  note t = navigation_arithmetic [OF n, of 1 "Some 2"] navigation_arithmetic [OF n, of 1 None]
    navigation_arithmetic [OF n, of 7 "Some 2"]
  from t(1) have a: "next_index 3 2 = Inr 0" "previous_index 3 0 = Inr 2"
    by simp_all
  from t(1) obtain p where p: "random_index 3 = Inr p"
    "\<forall>k. p k = (if 0 \<le> k \<and> k \<le> int 3 - 1 then 1 / real 3 else 0)"
    by blast
  from p(2) have "p 0 = 1 / 3" "p 1 = 1 / 3" "p 2 = 1 / 3" "p 3 = 0" "p (- 1) = 0"
    by simp_all
  with p(1) have b: "\<exists>p. random_index 3 = Inr p \<and> p 0 = 1 / 3 \<and> p 1 = 1 / 3 \<and> p 2 = 1 / 3
      \<and> p 3 = 0 \<and> p (- 1) = 0"
    by blast
  from t(1) have c: "jump_index 3 1 (Some 2) = Inr 2"
    by auto
  from t(2) have d: "jump_index 3 1 None = Inr 1"
    by auto
  from t(3) have e: "isl (jump_index 3 7 (Some 2))"
    by simp
  from n a b c d e show ?thesis by blast
qed

section \<open>Choosing the backend\<close>

text \<open>
  C6, as amended. The backend is chosen by which of the two variables is set to a
  non-empty value: the Anthropic variable wins whenever it is, whatever the OpenAI
  variable holds; the OpenAI variable decides only when the Anthropic one is unset or
  empty; a chosen backend whose library is missing raises an \<^verbatim>\<open>ImportError\<close> and the
  other backend is not tried. When neither variable has a non-empty value the
  construction raises the \<^verbatim>\<open>ValueError\<close>, and \<^verbatim>\<open>main\<close> reports it having printed one
  line and requested no dataset.
\<close>

theorem backend_selection:
  "(getenv w ''ANTHROPIC_API_KEY'' = Some a \<and> a \<noteq> [] \<longrightarrow>
      (anthropic_installed w \<longrightarrow> from_environment w = Inr (init (Some (Claude a))))
      \<and> (\<not> anthropic_installed w \<longrightarrow> (\<exists>m. from_environment w = Inl (ImportError m))))
   \<and> (\<not> truthy (getenv w ''ANTHROPIC_API_KEY'') \<and> getenv w ''OPENAI_API_KEY'' = Some b \<and> b \<noteq> [] \<longrightarrow>
      (openai_installed w \<longrightarrow> from_environment w = Inr (init (Some (GPT4 b))))
      \<and> (\<not> openai_installed w \<longrightarrow> (\<exists>m. from_environment w = Inl (ImportError m))))
   \<and> (\<not> truthy (getenv w ''ANTHROPIC_API_KEY'') \<and> \<not> truthy (getenv w ''OPENAI_API_KEY'') \<longrightarrow>
      from_environment w =
        Inl (ValueError
          ''No API keys found. Please set either ANTHROPIC_API_KEY or OPENAI_API_KEY environment variable.'')
      \<and> fst (main dataset_url split prompt force w) =
          Click_exception
            ''No API keys found. Please set either ANTHROPIC_API_KEY or OPENAI_API_KEY environment variable.''
      \<and> length (new_events w (snd (main dataset_url split prompt force w))) = 1
      \<and> dataset_requests (snd (main dataset_url split prompt force w)) = dataset_requests w)"
proof -
  have first: "from_environment w = Inr (init (Some (Claude a)))"
    if "getenv w ''ANTHROPIC_API_KEY'' = Some a" "a \<noteq> []" "anthropic_installed w"
    using that by (simp add: from_environment_def new_Claude_def split: list.splits)
  have first': "\<exists>m. from_environment w = Inl (ImportError m)"
    if "getenv w ''ANTHROPIC_API_KEY'' = Some a" "a \<noteq> []" "\<not> anthropic_installed w"
    using that by (simp add: from_environment_def new_Claude_def split: list.splits)
  have second: "from_environment w = Inr (init (Some (GPT4 b)))"
    if "\<not> truthy (getenv w ''ANTHROPIC_API_KEY'')" "getenv w ''OPENAI_API_KEY'' = Some b" "b \<noteq> []"
      "openai_installed w"
    using that
    by (auto simp: from_environment_def new_GPT4_def truthy_def split: option.splits list.splits)
  have second': "\<exists>m. from_environment w = Inl (ImportError m)"
    if "\<not> truthy (getenv w ''ANTHROPIC_API_KEY'')" "getenv w ''OPENAI_API_KEY'' = Some b" "b \<noteq> []"
      "\<not> openai_installed w"
    using that
    by (auto simp: from_environment_def new_GPT4_def truthy_def split: option.splits list.splits)
  let ?m = "''No API keys found. Please set either ANTHROPIC_API_KEY or OPENAI_API_KEY environment variable.''"
  have none: "from_environment w' = Inl (ValueError ?m)"
    if "\<not> truthy (getenv w' ''ANTHROPIC_API_KEY'')" "\<not> truthy (getenv w' ''OPENAI_API_KEY'')" for w'
    using that by (auto simp: from_environment_def truthy_def split: option.splits list.splits)
  have main: "main dataset_url split prompt force w =
                (Click_exception ?m,
                 log (Printed ([nl] @ [CHR 0xF0, CHR 0x9F, CHR 0x94, CHR 0xA7] @
                               '' Setting up DataViewer for '' @ dataset_url)) w)"
    if n: "\<not> truthy (getenv w ''ANTHROPIC_API_KEY'')" "\<not> truthy (getenv w ''OPENAI_API_KEY'')"
  proof -
    let ?w1 = "log (Printed ([nl] @ [CHR 0xF0, CHR 0x9F, CHR 0x94, CHR 0xA7] @
                             '' Setting up DataViewer for '' @ dataset_url)) w"
    have "getenv ?w1 = getenv w"
      by (simp add: getenv_def log_def fun_eq_iff)
    with n have "from_environment ?w1 = Inl (ValueError ?m)"
      by (intro none) simp_all
    then show ?thesis
      unfolding main_def Let_def by simp
  qed
  have third: "fst (main dataset_url split prompt force w) = Click_exception ?m
      \<and> length (new_events w (snd (main dataset_url split prompt force w))) = 1
      \<and> dataset_requests (snd (main dataset_url split prompt force w)) = dataset_requests w"
    if n: "\<not> truthy (getenv w ''ANTHROPIC_API_KEY'')" "\<not> truthy (getenv w ''OPENAI_API_KEY'')"
    unfolding main [OF n] by (simp add: new_events_def dataset_requests_def log_def)
  from first first' second second' none [of w] third show ?thesis
    by blast
qed

theorem backend_selection_witness:
  "getenv (mnist_world\<lparr>environ := [''ANTHROPIC_API_KEY'' \<mapsto> ''a-key'', ''OPENAI_API_KEY'' \<mapsto> ''o-key'']\<rparr>)
      ''ANTHROPIC_API_KEY'' = Some ''a-key''
   \<and> from_environment
       (mnist_world\<lparr>environ := [''ANTHROPIC_API_KEY'' \<mapsto> ''a-key'', ''OPENAI_API_KEY'' \<mapsto> ''o-key'']\<rparr>)
       = Inr (init (Some (Claude ''a-key'')))
   \<and> \<not> truthy (getenv mnist_world ''ANTHROPIC_API_KEY'')
   \<and> \<not> truthy (getenv mnist_world ''OPENAI_API_KEY'')
   \<and> fst (main ''mnist'' ''train'' [] False mnist_world) =
       Click_exception
         ''No API keys found. Please set either ANTHROPIC_API_KEY or OPENAI_API_KEY environment variable.''
   \<and> dataset_requests (snd (main ''mnist'' ''train'' [] False mnist_world)) = []"
proof -
  let ?w = "mnist_world\<lparr>environ := [''ANTHROPIC_API_KEY'' \<mapsto> ''a-key'', ''OPENAI_API_KEY'' \<mapsto> ''o-key'']\<rparr>"
  have a: "getenv ?w ''ANTHROPIC_API_KEY'' = Some ''a-key''" "''a-key'' \<noteq> []" "anthropic_installed ?w"
    by (simp_all add: getenv_def mnist_world_def)
  have n: "\<not> truthy (getenv mnist_world ''ANTHROPIC_API_KEY'')"
    "\<not> truthy (getenv mnist_world ''OPENAI_API_KEY'')"
    by (simp_all add: getenv_def truthy_def mnist_world_def)
  have d: "dataset_requests mnist_world = []"
    by (simp add: dataset_requests_def mnist_world_def)
  from backend_selection [of ?w "''a-key''" "''o-key''" "''mnist''" "''train''" "[]" False] a
  have one: "from_environment ?w = Inr (init (Some (Claude ''a-key'')))"
    by blast
  from backend_selection [of mnist_world "''a-key''" "''o-key''" "''mnist''" "''train''" "[]" False] n
  have two: "fst (main ''mnist'' ''train'' [] False mnist_world) =
       Click_exception
         ''No API keys found. Please set either ANTHROPIC_API_KEY or OPENAI_API_KEY environment variable.''
     \<and> dataset_requests (snd (main ''mnist'' ''train'' [] False mnist_world)) = dataset_requests mnist_world"
    by blast
  from one two a(1) n d show ?thesis by simp
qed

text \<open>
  Both variables are present, the Anthropic one with the empty string: the OpenAI
  backend is chosen, so presence alone does not decide and the first-checked
  variable does not win.
\<close>

theorem backend_selection_counterexample:
  "''ANTHROPIC_API_KEY'' \<in> dom (environ (mnist_world\<lparr>environ :=
        [''ANTHROPIC_API_KEY'' \<mapsto> [], ''OPENAI_API_KEY'' \<mapsto> ''o-key'']\<rparr>))
   \<and> ''OPENAI_API_KEY'' \<in> dom (environ (mnist_world\<lparr>environ :=
        [''ANTHROPIC_API_KEY'' \<mapsto> [], ''OPENAI_API_KEY'' \<mapsto> ''o-key'']\<rparr>))
   \<and> from_environment (mnist_world\<lparr>environ :=
        [''ANTHROPIC_API_KEY'' \<mapsto> [], ''OPENAI_API_KEY'' \<mapsto> ''o-key'']\<rparr>)
       = Inr (init (Some (GPT4 ''o-key'')))"
  by (simp add: from_environment_def getenv_def new_GPT4_def mnist_world_def)

section \<open>Loading the documentation\<close>

lemma download_readme_events:
  "new_events w (snd (download_readme dataset_url w)) =
     Hub_file_requested dataset_url ''README.md'' #
     (if isl (hub_files w dataset_url ''README.md'')
      then [Hub_file_requested dataset_url ''dataset_card.md''] else [])"
  by (simp add: download_readme_def new_events_def log_def Let_def split: sum.splits)

lemma download_readme_path:
  "fst (download_readme dataset_url w) =
     (case hub_files w dataset_url ''README.md'' of
        Inr path \<Rightarrow> Some path
      | Inl _ \<Rightarrow>
          (case hub_files w dataset_url ''dataset_card.md'' of
             Inr path \<Rightarrow> Some path
           | Inl _ \<Rightarrow> None))"
  by (simp add: download_readme_def Let_def split: sum.splits)

lemma download_readme_frame:
  "files (snd (download_readme dataset_url w)) = files w
   \<and> events (snd (download_readme dataset_url w)) =
       events w @ new_events w (snd (download_readme dataset_url w))"
  by (simp add: download_readme_def new_events_def log_def Let_def split: sum.splits)

text \<open>
  C7, as amended. When the table loader succeeds, \<^verbatim>\<open>load_dataset\<close> completes without
  an exception whatever the documentation fetch does. README.md is requested first
  and dataset_card.md only when the request for README.md raised. The documentation
  is recorded as \<^verbatim>\<open>None\<close> when the hub client cannot be imported, when both requests
  raise, and when the chosen path is empty or cannot be read; it is the text of the
  downloaded file otherwise, also when only the first request raised.
\<close>

theorem documentation_fetch:
  assumes "hub_datasets w dataset_url = Inr table"
  shows "\<exists>readme w'.
           load_dataset self dataset_url w =
             (None,
              self\<lparr>dataset_name := Some dataset_url, data := Some table,
                   dataset_readme := Some readme\<rparr>, w')
         \<and> (\<not> hub_client_installed w \<longrightarrow> readme = None)
         \<and> (isl (hub_files w dataset_url ''README.md'')
              \<and> isl (hub_files w dataset_url ''dataset_card.md'') \<longrightarrow> readme = None)
         \<and> (fst (download_readme dataset_url w) = Some path
              \<and> (path = [] \<or> (\<forall>text. files w path \<noteq> Some (File text))) \<longrightarrow> readme = None)
         \<and> (hub_client_installed w \<and> fst (download_readme dataset_url w) = Some path
              \<and> path \<noteq> [] \<and> files w path = Some (File text) \<longrightarrow> readme = Some text)
         \<and> (hub_client_installed w \<longrightarrow>
              take 2 (new_events w w') =
                [Dataset_requested dataset_url, Hub_file_requested dataset_url ''README.md'']
              \<and> (Hub_file_requested dataset_url ''dataset_card.md'' \<in> set (new_events w w')
                   \<longleftrightarrow> isl (hub_files w dataset_url ''README.md''))
              \<and> (isl (hub_files w dataset_url ''README.md'') \<longrightarrow>
                   take 3 (new_events w w') =
                     [Dataset_requested dataset_url,
                      Hub_file_requested dataset_url ''README.md'',
                      Hub_file_requested dataset_url ''dataset_card.md'']))"
proof -
  let ?w1 = "log (Dataset_requested dataset_url) w"
  let ?self2 = "self\<lparr>dataset_name := Some dataset_url, data := Some table\<rparr>"
  obtain r w2 where f: "fetch_readme dataset_url ?w1 = (r, w2)"
    by (cases "fetch_readme dataset_url ?w1")
  define readme where "readme = (case r of Inl _ \<Rightarrow> None | Inr x \<Rightarrow> x)"
  have ld: "load_dataset self dataset_url w =
              (None, ?self2\<lparr>dataset_readme := Some readme\<rparr>, w2)"
    using assms f by (simp add: load_dataset_def Let_def readme_def split: sum.splits)
  have hub: "hub_files ?w1 = hub_files w" "files ?w1 = files w"
      "hub_client_installed ?w1 = hub_client_installed w"
    by (simp_all add: log_def)
  have dp: "fst (download_readme dataset_url ?w1) = fst (download_readme dataset_url w)"
    by (simp add: download_readme_path hub split: sum.splits)
  obtain p w1' where d: "download_readme dataset_url ?w1 = (p, w1')"
    by (cases "download_readme dataset_url ?w1")
  have p: "p = fst (download_readme dataset_url w)"
    using d dp by simp
  have fr: "files w1' = files w"
    using download_readme_frame [of dataset_url ?w1] d hub by simp
  have ev: "events w1' = events w @ Dataset_requested dataset_url #
              Hub_file_requested dataset_url ''README.md'' #
              (if isl (hub_files w dataset_url ''README.md'')
               then [Hub_file_requested dataset_url ''dataset_card.md''] else [])"
    using download_readme_frame [of dataset_url ?w1] download_readme_events [of ?w1 dataset_url] d hub
    by (simp add: log_def)
  have c1: "readme = None" if "\<not> hub_client_installed w"
    using that f hub by (simp add: fetch_readme_def readme_def) (auto simp: readme_def)
  have c2: "readme = None"
    if "isl (hub_files w dataset_url ''README.md'')" "isl (hub_files w dataset_url ''dataset_card.md'')"
  proof -
    from that have "p = None"
      unfolding p download_readme_path by (auto simp: isl_def)
    with f d show ?thesis
      by (auto simp: fetch_readme_def readme_def split: if_splits)
  qed
  have c3: "readme = None"
    if "fst (download_readme dataset_url w) = Some path"
      "path = [] \<or> (\<forall>text. files w path \<noteq> Some (File text))"
  proof -
    from that(1) have "p = Some path" using p by simp
    with f d that(2) fr show ?thesis
      by (auto simp: fetch_readme_def readme_def read_text_def
          split: if_splits option.splits node.splits list.splits)
  qed
  have c4: "readme = Some text"
    if "hub_client_installed w" "fst (download_readme dataset_url w) = Some path"
      "path \<noteq> []" "files w path = Some (File text)"
  proof -
    from that(2) have "p = Some path" using p by simp
    with f d that fr hub show ?thesis
      by (auto simp: fetch_readme_def readme_def read_text_def
          split: if_splits option.splits node.splits list.splits)
  qed
  have w2: "\<exists>rest. events w2 = events w1' @ rest
              \<and> Hub_file_requested dataset_url ''dataset_card.md'' \<notin> set rest"
    if "hub_client_installed w"
    using that f d hub
    by (auto simp: fetch_readme_def read_text_def log_def
        split: if_splits option.splits node.splits list.splits)
  have c5: "take 2 (new_events w w2) =
                [Dataset_requested dataset_url, Hub_file_requested dataset_url ''README.md'']
              \<and> (Hub_file_requested dataset_url ''dataset_card.md'' \<in> set (new_events w w2)
                   \<longleftrightarrow> isl (hub_files w dataset_url ''README.md''))
              \<and> (isl (hub_files w dataset_url ''README.md'') \<longrightarrow>
                   take 3 (new_events w w2) =
                     [Dataset_requested dataset_url,
                      Hub_file_requested dataset_url ''README.md'',
                      Hub_file_requested dataset_url ''dataset_card.md''])"
    if "hub_client_installed w"
  proof -
    from w2 [OF that] obtain rest where
      r: "events w2 = events w1' @ rest"
         "Hub_file_requested dataset_url ''dataset_card.md'' \<notin> set rest"
      by blast
    show ?thesis
      using r by (simp add: new_events_def ev)
  qed
  from ld c1 c2 c3 c4 c5 show ?thesis
    by blast
qed

theorem documentation_fetch_witness:
  "hub_datasets (mnist_world\<lparr>hub_files := (\<lambda>repo filename. Inl (ExternalError ''offline''))\<rparr>) ''mnist''
      = Inr mnist_table
   \<and> fst (load_dataset (init None) ''mnist''
            (mnist_world\<lparr>hub_files := (\<lambda>repo filename. Inl (ExternalError ''offline''))\<rparr>)) = None
   \<and> dataset_readme (fst (snd (load_dataset (init None) ''mnist''
            (mnist_world\<lparr>hub_files := (\<lambda>repo filename. Inl (ExternalError ''offline''))\<rparr>))))
      = Some None"
proof -
  let ?w = "mnist_world\<lparr>hub_files := (\<lambda>repo filename. Inl (ExternalError ''offline''))\<rparr>"
  have t: "hub_datasets ?w ''mnist'' = Inr mnist_table"
    by (simp add: mnist_world_def)
  have b: "isl (hub_files ?w ''mnist'' ''README.md'')" "isl (hub_files ?w ''mnist'' ''dataset_card.md'')"
    by simp_all
  from documentation_fetch [OF t, of "init None"] b
  obtain readme w' where
    "load_dataset (init None) ''mnist'' ?w =
       (None, init None\<lparr>dataset_name := Some ''mnist'', data := Some mnist_table,
                        dataset_readme := Some readme\<rparr>, w')"
    and "readme = None"
    by blast
  with t show ?thesis by simp
qed

text \<open>
  The request for README.md raises and the one for dataset_card.md succeeds: a fetch
  attempt failed, and yet the documentation is recorded, not \<^verbatim>\<open>None\<close>.
\<close>

theorem documentation_fetch_counterexample:
  "isl (hub_files mnist_world ''mnist'' ''README.md'')
   \<and> fst (load_dataset (init None) ''mnist'' mnist_world) = None
   \<and> dataset_readme (fst (snd (load_dataset (init None) ''mnist'' mnist_world)))
       = Some (Some ''MNIST digits'')
   \<and> dataset_readme (fst (snd (load_dataset (init None) ''mnist'' mnist_world))) \<noteq> Some None"
  by (simp add: load_dataset_def fetch_readme_def download_readme_def read_text_def
      log_def Let_def mnist_world_def)

section \<open>Forced regeneration\<close>

lemma model_calls_log:
  "model_calls (log e w) =
     model_calls w @ (case e of Model_called _ _ _ \<Rightarrow> [e] | _ \<Rightarrow> [])"
  by (simp add: model_calls_def log_def split: event.splits)

lemma model_calls_signal_completion:
  "model_calls (snd (signal_completion self w)) = model_calls w"
  by (simp add: signal_completion_def model_calls_def log_def split: option.splits sum.splits)

lemma model_calls_write_file:
  "model_calls (snd (write_file path text w)) = model_calls w"
  by (simp add: write_file_def model_calls_def log_def split: option.splits)

lemma write_file_ok:
  "files w path \<noteq> Some Directory \<Longrightarrow> write_error w path = None \<Longrightarrow>
   write_file path text w =
     (None, log (File_written path text) (w\<lparr>files := (files w)(path \<mapsto> File text)\<rparr>))"
  by (simp add: write_file_def)

lemma model_calls_generate_code:
  "model_calls (snd (generate_code client prompt system_msg w)) =
     model_calls w @ [Model_called client prompt system_msg]"
  by (simp add: generate_code_def model_calls_log)

lemma model_calls_generate_fresh:
  assumes "first_instance table split = Inr sample" and "dataset_readme self = Some readme"
  shows "model_calls (snd (snd (generate_fresh self table client viewer_path split extra_prompt w))) =
         model_calls w @ [Model_called client (build_prompt sample readme extra_prompt) system_message]"
proof -
  let ?p = "build_prompt sample readme extra_prompt"
  obtain r w1 where g: "generate_code client ?p system_message w = (r, w1)"
    by (cases "generate_code client ?p system_message w")
  have m1: "model_calls w1 = model_calls w @ [Model_called client ?p system_message]"
    using model_calls_generate_code [of client ?p system_message w] g by simp
  show ?thesis
  proof (cases r)
    case (Inl e)
    with assms g m1 show ?thesis by (simp add: generate_fresh_def)
  next
    case (Inr answer)
    obtain c w2 where s: "signal_completion self w1 = (c, w2)"
      by (cases "signal_completion self w1")
    have m2: "model_calls w2 = model_calls w1"
      using model_calls_signal_completion [of self w1] s by simp
    show ?thesis
    proof (cases c)
      case (Some e)
      with assms g Inr s m1 m2 show ?thesis by (simp add: generate_fresh_def)
    next
      case None
      let ?text = "fill_template (dataset_name self) split (clean_code (unicode_alnum w) answer)"
      obtain x w3 where wr: "write_file viewer_path ?text w2 = (x, w3)"
        by (cases "write_file viewer_path ?text w2")
      have m3: "model_calls w3 = model_calls w2"
        using model_calls_write_file [of viewer_path ?text w2] wr by simp
      from assms g Inr s None wr m1 m2 m3 show ?thesis
        by (cases x) (simp_all add: generate_fresh_def)
    qed
  qed
qed

text \<open>
  C4, as amended. With \<open>force\<close> true, a dataset loaded by \<^verbatim>\<open>load_dataset\<close> and a
  configured client, whenever the requested split is there and has a first instance,
  \<^verbatim>\<open>generate_viewer\<close> calls the model exactly once, whether or not something is at the
  viewer path. When the model answers, the progress callback returns and the write
  is not refused, the path is returned and the file at the path holds the template
  filled with the cleaned answer.
\<close>

theorem forced_generation:
  assumes "data self = Some table" and "llm self = Some client"
    and "get_viewer_path self split = Inr viewer_path"
    and "first_instance table split = Inr sample"
    and "dataset_readme self = Some readme"
  shows "model_calls (snd (snd (generate_viewer self split extra_prompt True w))) =
           model_calls w @
             [Model_called client (build_prompt sample readme extra_prompt) system_message]
       \<and> (model_service w (events w @ [Path_checked viewer_path]) client
              (build_prompt sample readme extra_prompt) system_message = Inr answer
          \<and> signal_completion self
              (log (Model_called client (build_prompt sample readme extra_prompt) system_message)
                 (log (Path_checked viewer_path) w)) = (None, w2)
          \<and> files w2 viewer_path \<noteq> Some Directory \<and> write_error w2 viewer_path = None
          \<longrightarrow> fst (generate_viewer self split extra_prompt True w) = Inr viewer_path
              \<and> files (snd (snd (generate_viewer self split extra_prompt True w))) viewer_path =
                  Some (File (fill_template (dataset_name self) split (clean_code (unicode_alnum w) answer))))"
proof -
  let ?p = "build_prompt sample readme extra_prompt"
  let ?w1 = "log (Path_checked viewer_path) w"
  have gv: "generate_viewer self split extra_prompt True w =
            generate_fresh self table client viewer_path split extra_prompt ?w1"
    using assms by (simp add: generate_viewer_def Let_def)
  have "model_calls ?w1 = model_calls w"
    by (simp add: model_calls_log)
  then have first: "model_calls (snd (snd (generate_viewer self split extra_prompt True w))) =
           model_calls w @ [Model_called client ?p system_message]"
    using model_calls_generate_fresh [OF assms(4,5)] gv by simp
  have second: "fst (generate_viewer self split extra_prompt True w) = Inr viewer_path
              \<and> files (snd (snd (generate_viewer self split extra_prompt True w))) viewer_path =
                  Some (File (fill_template (dataset_name self) split (clean_code (unicode_alnum w) answer)))"
    if "model_service w (events w @ [Path_checked viewer_path]) client ?p system_message = Inr answer"
      and "signal_completion self (log (Model_called client ?p system_message) ?w1) = (None, w2)"
      and "files w2 viewer_path \<noteq> Some Directory" and "write_error w2 viewer_path = None"
  proof -
    let ?text = "fill_template (dataset_name self) split (clean_code (unicode_alnum w) answer)"
    have gc: "generate_code client ?p system_message ?w1 =
                (Inr answer, log (Model_called client ?p system_message) ?w1)"
      using that(1) by (simp add: generate_code_def events_log) (simp add: log_def)
    have wf: "write_file viewer_path ?text w2 =
                (None, log (File_written viewer_path ?text)
                         (w2\<lparr>files := (files w2)(viewer_path \<mapsto> File ?text)\<rparr>))"
      using that(3,4) by (rule write_file_ok)
    have "generate_fresh self table client viewer_path split extra_prompt ?w1 =
            (Inr viewer_path, self,
             log (File_written viewer_path ?text)
               (w2\<lparr>files := (files w2)(viewer_path \<mapsto> File ?text)\<rparr>))"
      unfolding generate_fresh_def using assms(4,5) gc that(2) wf
      by (simp add: unicode_alnum_log)
    with gv show ?thesis by (simp add: files_log)
  qed
  from first second show ?thesis by blast
qed

theorem forced_generation_witness:
  "data mnist_viewer = Some mnist_table \<and> llm mnist_viewer = Some (Claude ''key'')
   \<and> path_exists mnist_world ''view_mnist_train.py''
   \<and> first_instance mnist_table ''train'' =
       Inr [(''image'', PyObject ''PIL.PngImagePlugin.PngImageFile'' ''PngImageFile''),
            (''label'', PyInt 5)]
   \<and> model_calls (snd (snd (generate_viewer mnist_viewer ''train'' [] True mnist_world))) =
       [Model_called (Claude ''key'')
          (build_prompt [(''image'', PyObject ''PIL.PngImagePlugin.PngImageFile'' ''PngImageFile''),
                         (''label'', PyInt 5)] None [])
          system_message]
   \<and> fst (generate_viewer mnist_viewer ''train'' [] True mnist_world) = Inr ''view_mnist_train.py''
   \<and> files (snd (snd (generate_viewer mnist_viewer ''train'' [] True mnist_world))) ''view_mnist_train.py''
       = Some (File (fill_template (Some ''mnist'') ''train'' ''display = 1''))"
proof -
  let ?sample = "[(''image'', PyObject ''PIL.PngImagePlugin.PngImageFile'' ''PngImageFile''),
                  (''label'', PyInt 5)]"
  let ?call = "Model_called (Claude ''key'') (build_prompt ?sample None []) system_message"
  let ?w2 = "log ?call (log (Path_checked ''view_mnist_train.py'') mnist_world)"
  let ?answer = "''```python'' @ [nl] @ ''display = 1'' @ [nl] @ ''```''"
  have d: "data mnist_viewer = Some mnist_table" and l: "llm mnist_viewer = Some (Claude ''key'')"
    and r: "dataset_readme mnist_viewer = Some None" and n: "dataset_name mnist_viewer = Some ''mnist''"
    by (simp_all add: mnist_viewer_def)
  have s: "first_instance mnist_table ''train'' = Inr ?sample"
    by (simp add: first_instance_def mnist_table_def)
  have m: "model_service mnist_world (events mnist_world @ [Path_checked ''view_mnist_train.py''])
             (Claude ''key'') (build_prompt ?sample None []) system_message
           = Inr ?answer"
    by (simp add: mnist_world_def)
  have c: "signal_completion mnist_viewer ?w2 = (None, ?w2)"
    by (simp add: signal_completion_def mnist_viewer_def)
  have f: "files ?w2 ''view_mnist_train.py'' \<noteq> Some Directory"
    and e: "write_error ?w2 ''view_mnist_train.py'' = None"
    by (simp_all add: log_def mnist_world_def)
  have "clean_code latin_alnum
          (concat [] @ fenced [''p'', ''y'', ''t'', ''h'', ''o'', ''n''] ''display = 1'' @ concat [])
        = ''display = 1''"
    by (rule clean_code_fenced) (simp_all add: is_word_def ascii_word_def)
  then have k: "clean_code (unicode_alnum mnist_world) ?answer = ''display = 1''"
    by (simp add: fenced_def mnist_world_def)
  have z: "model_calls mnist_world = []"
    by (simp add: model_calls_def mnist_world_def)
  from forced_generation [OF d l mnist_path s r, of "[]" mnist_world ?answer ?w2]
    m c f e
  have "model_calls (snd (snd (generate_viewer mnist_viewer ''train'' [] True mnist_world))) =
          model_calls mnist_world @ [?call]
        \<and> fst (generate_viewer mnist_viewer ''train'' [] True mnist_world) = Inr ''view_mnist_train.py''
        \<and> files (snd (snd (generate_viewer mnist_viewer ''train'' [] True mnist_world))) ''view_mnist_train.py''
            = Some (File (fill_template (dataset_name mnist_viewer) ''train''
                            (clean_code (unicode_alnum mnist_world) ?answer)))"
    by blast
  with d l s mnist_exists k n z show ?thesis by simp
qed

text \<open>
  The dataset has no split of the requested name: with \<open>force\<close> true and a file at
  the viewer path, \<^verbatim>\<open>generate_viewer\<close> raises a \<^verbatim>\<open>KeyError\<close>, the model is not called and
  the file is not overwritten.
\<close>

theorem forced_generation_counterexample:
  "data mnist_viewer = Some mnist_table \<and> llm mnist_viewer = Some (Claude ''key'')
   \<and> get_viewer_path mnist_viewer ''test'' = Inr ''view_mnist_test.py''
   \<and> files (mnist_world\<lparr>files := [''view_mnist_test.py'' \<mapsto> File ''old viewer'']\<rparr>) ''view_mnist_test.py''
       = Some (File ''old viewer'')
   \<and> fst (generate_viewer mnist_viewer ''test'' [] True
            (mnist_world\<lparr>files := [''view_mnist_test.py'' \<mapsto> File ''old viewer'']\<rparr>))
       = Inl (KeyError ([sq] @ ''test'' @ [sq]))
   \<and> model_calls (snd (snd (generate_viewer mnist_viewer ''test'' [] True
            (mnist_world\<lparr>files := [''view_mnist_test.py'' \<mapsto> File ''old viewer'']\<rparr>)))) = []
   \<and> files (snd (snd (generate_viewer mnist_viewer ''test'' [] True
            (mnist_world\<lparr>files := [''view_mnist_test.py'' \<mapsto> File ''old viewer'']\<rparr>))))
        ''view_mnist_test.py'' = Some (File ''old viewer'')"
  by (simp add: generate_viewer_def generate_fresh_def get_viewer_path_def first_instance_def
      py_repr_def repr_escape_def path_exists_def model_calls_def log_def Let_def
      mnist_viewer_def mnist_table_def mnist_world_def)

end
